theory Spec2Isabelle
  imports Main "HOL-Library.Sublist"
begin

section \<open>Values, rows and tool arguments\<close>

text \<open>
  A column value of the \<^verbatim>\<open>vehicles\<close> table as the tools see it through the query API:
  SQL NULL, a number or a text. Identifiers and prices are integers here; timestamps are
  the ISO texts the tools write.
\<close>

datatype val = Null | Num int | Str string

text \<open>A row maps a column name to its value, as the JavaScript object the client returns.\<close>

type_synonym row = "string \<Rightarrow> val"

text \<open>JavaScript truthiness of a column value: \<^verbatim>\<open>null\<close>, \<^verbatim>\<open>0\<close> and \<^verbatim>\<open>""\<close> are falsy.\<close>

definition truthy :: "val \<Rightarrow> bool" where
  "truthy v = (case v of Null \<Rightarrow> False | Num n \<Rightarrow> n \<noteq> 0 | Str s \<Rightarrow> s \<noteq> [])"

text \<open>
  Truthiness of an optional argument (\<^verbatim>\<open>if (id)\<close>, \<^verbatim>\<open>if (vin)\<close>): \<^verbatim>\<open>undefined\<close> is
  \<open>None\<close>; a supplied \<^verbatim>\<open>0\<close> or \<^verbatim>\<open>""\<close> is falsy too.
\<close>

definition truthy_num :: "int option \<Rightarrow> bool" where
  "truthy_num x = (case x of None \<Rightarrow> False | Some n \<Rightarrow> n \<noteq> 0)"

definition truthy_str :: "string option \<Rightarrow> bool" where
  "truthy_str x = (case x of None \<Rightarrow> False | Some s \<Rightarrow> s \<noteq> [])"

text \<open>
  The arguments object of a tool call. Every field of every schema is optional
  (\<^verbatim>\<open>z.number().optional()\<close>, \<^verbatim>\<open>z.string().optional()\<close>); each tool destructures the
  fields of its own schema and reads no other. The notes are
  \<^verbatim>\<open>z.string().nullable().optional()\<close>: \<open>None\<close> is \<^verbatim>\<open>undefined\<close>, \<open>Some None\<close> is
  \<^verbatim>\<open>null\<close>. The fields \<^verbatim>\<open>id\<close>, \<^verbatim>\<open>make\<close> and \<^verbatim>\<open>notes\<close> are written \<open>id'\<close>, \<open>make'\<close> and
  \<open>notes'\<close>.
\<close>

record args =
  id' :: "int option"
  vin :: "string option"
  stockNumber :: "string option"
  make' :: "string option"
  model :: "string option"
  year :: "int option"
  minYear :: "int option"
  maxYear :: "int option"
  minPrice :: "int option"
  maxPrice :: "int option"
  hasPrice :: "bool option"
  colour :: "string option"
  interiorColor :: "string option"
  newUsed :: "string option"
  certified :: "string option"
  transmission :: "string option"
  drivetrain :: "string option"
  fuel :: "string option"
  maxOdometer :: "int option"
  body :: "string option"
  dealerName :: "string option"
  price :: "int option"
  customPrice :: "int option"
  description :: "string option"
  aiDescription :: "string option"
  odometer :: "int option"
  tags :: "string option"
  inventoryDate :: "string option"
  notes' :: "string option option"

text \<open>The call with no argument supplied.\<close>

definition no_args :: args where
  "no_args = \<lparr>id' = None, vin = None, stockNumber = None, make' = None, model = None,
     year = None, minYear = None, maxYear = None, minPrice = None, maxPrice = None,
     hasPrice = None, colour = None, interiorColor = None, newUsed = None,
     certified = None, transmission = None, drivetrain = None, fuel = None,
     maxOdometer = None, body = None, dealerName = None, price = None,
     customPrice = None, description = None, aiDescription = None, odometer = None,
     tags = None, inventoryDate = None, notes' = None\<rparr>"

text \<open>The process environment the tools read (\<^verbatim>\<open>process.env\<close>).\<close>

record env =
  SUPABASE_URL :: "string option"
  SUPABASE_SERVICE_ROLE_KEY :: "string option"
  R2_ENDPOINT :: "string option"
  R2_ACCESS_KEY_ID :: "string option"
  R2_SECRET_ACCESS_KEY :: "string option"
  R2_BUCKET_NAME :: "string option"

text \<open>\<^verbatim>\<open>if (!supabaseUrl || !supabaseKey) return `Error: Missing Supabase credentials...`\<close>\<close>

definition configured :: "env \<Rightarrow> bool" where
  "configured e = (truthy_str (SUPABASE_URL e) \<and> truthy_str (SUPABASE_SERVICE_ROLE_KEY e))"

section \<open>The store behind the query client\<close>

text \<open>
  The filters the tools put on a query, one constructor per client method used:
  \<^verbatim>\<open>.is(c, null)\<close>, \<^verbatim>\<open>.not(c, 'is', null)\<close>, \<^verbatim>\<open>.eq\<close>, \<^verbatim>\<open>.ilike\<close>, \<^verbatim>\<open>.gte\<close>, \<^verbatim>\<open>.lte\<close>,
  \<^verbatim>\<open>.in\<close>.
\<close>

datatype cond =
    Is_null string
  | Not_null string
  | Eq string val
  | Ilike string string
  | Gte string val
  | Lte string val
  | In_list string "val list"

text \<open>
  The SQL pattern match behind \<^verbatim>\<open>.ilike\<close>: \<^verbatim>\<open>%\<close> stands for any run of characters,
  \<^verbatim>\<open>_\<close> for any one character, a backslash makes the next pattern character literal.
  A pattern that ends in a lone backslash matches nothing here (the database rejects it);
  every pattern the tools build ends in \<^verbatim>\<open>%\<close>.
\<close>

fun like_match :: "string \<Rightarrow> string \<Rightarrow> bool" where
  "like_match [] s = (s = [])"
| "like_match (p # ps) [] =
     (if p = CHR ''%'' then like_match ps [] else False)"
| "like_match (p # ps) (c # s) =
     (if p = CHR ''%'' then like_match ps (c # s) \<or> like_match (p # ps) s
      else if p = CHR ''_'' then like_match ps s
      else if p = CHR 0x5C then
        (case ps of [] \<Rightarrow> False | q # qs \<Rightarrow> c = q \<and> like_match qs s)
      else c = p \<and> like_match ps s)"

text \<open>Case folding of the ASCII letters; every other byte is left as it is.\<close>

definition lower :: "char \<Rightarrow> char" where
  "lower c = (if (65::nat) \<le> of_char c \<and> of_char c \<le> (90::nat)
              then char_of (of_char c + (32::nat)) else c)"

text \<open>The query API reads \<^verbatim>\<open>*\<close> in a pattern as \<^verbatim>\<open>%\<close>.\<close>

definition star :: "char \<Rightarrow> char" where
  "star c = (if c = CHR ''*'' then CHR ''%'' else c)"

definition ilike :: "string \<Rightarrow> string \<Rightarrow> bool" where
  "ilike pat s = like_match (map lower (map star pat)) (map lower s)"

text \<open>
  When a row satisfies a filter. A comparison with NULL is never true; \<^verbatim>\<open>ilike\<close> holds
  of text only, the range filters of numbers only.
\<close>

fun sat :: "cond \<Rightarrow> row \<Rightarrow> bool" where
  "sat (Is_null c) r = (r c = Null)"
| "sat (Not_null c) r = (r c \<noteq> Null)"
| "sat (Eq c v) r = (v \<noteq> Null \<and> r c = v)"
| "sat (Ilike c p) r = (case r c of Str s \<Rightarrow> ilike p s | _ \<Rightarrow> False)"
| "sat (Gte c v) r = (case r c of Num a \<Rightarrow> (case v of Num b \<Rightarrow> b \<le> a | _ \<Rightarrow> False) | _ \<Rightarrow> False)"
| "sat (Lte c v) r = (case r c of Num a \<Rightarrow> (case v of Num b \<Rightarrow> a \<le> b | _ \<Rightarrow> False) | _ \<Rightarrow> False)"
| "sat (In_list c vs) r = (r c \<noteq> Null \<and> r c \<in> set vs)"

text \<open>The filters of one query are ANDed.\<close>

definition matching :: "cond list \<Rightarrow> row \<Rightarrow> bool" where
  "matching cs r = list_all (\<lambda>c. sat c r) cs"

text \<open>\<^verbatim>\<open>.select('a, b')\<close> returns the named columns only, \<^verbatim>\<open>.select('*')\<close> all of them.\<close>

definition project :: "string list \<Rightarrow> row \<Rightarrow> row" where
  "project cols r = (if ''*'' \<in> set cols then r else (\<lambda>c. if c \<in> set cols then r c else Null))"

text \<open>An update object: the columns to assign, in insertion order.\<close>

type_synonym assignment = "(string \<times> val) list"

definition assign :: "assignment \<Rightarrow> row \<Rightarrow> row" where
  "assign kvs r = (\<lambda>c. case map_of kvs c of Some v \<Rightarrow> v | None \<Rightarrow> r c)"

text \<open>
  The requests a tool sends: a select (columns, filters), an update (assignment, filters,
  returned columns), a delete (filters), and the deletion of an object (bucket, key) of the
  object storage.
\<close>

datatype call =
    Select "string list" "cond list"
  | Update assignment "cond list" "string list"
  | Delete "cond list"
  | R2_delete string string

record store =
  vehicles :: "row list"
  objects :: "(string \<times> string) set"

text \<open>
  What the surroundings do during one invocation: the clock (\<^verbatim>\<open>new Date().toISOString()\<close>),
  the error, if any, with which the store answers the lookup and the write, the error, if
  any, thrown by the object storage, and the changes other writers make to the table
  between the tool's lookup and its write (the two are separate awaited requests).
\<close>

record ext =
  now :: string
  select_error :: "string option"
  write_error :: "string option"
  r2_error :: "string option"
  concurrent :: "row list \<Rightarrow> row list"

definition run_select :: "string option \<Rightarrow> string list \<Rightarrow> cond list \<Rightarrow> row list \<Rightarrow> string + row list" where
  "run_select err cols cs rs =
     (case err of
        Some m \<Rightarrow> Inl m
      | None \<Rightarrow> Inr (map (project cols) (filter (matching cs) rs)))"

text \<open>\<^verbatim>\<open>.update(kvs).<filters>.select(cols)\<close>: the rows written, and the table afterwards.\<close>

definition write_rows :: "assignment \<Rightarrow> cond list \<Rightarrow> row list \<Rightarrow> row list" where
  "write_rows kvs cs rs = map (\<lambda>r. if matching cs r then assign kvs r else r) rs"

definition run_update ::
  "string option \<Rightarrow> assignment \<Rightarrow> cond list \<Rightarrow> string list \<Rightarrow> row list \<Rightarrow> (string + row list) \<times> row list" where
  "run_update err kvs cs cols rs =
     (case err of
        Some m \<Rightarrow> (Inl m, rs)
      | None \<Rightarrow> (Inr (map (\<lambda>r. project cols (assign kvs r)) (filter (matching cs) rs)),
                 write_rows kvs cs rs))"

text \<open>
  With \<^verbatim>\<open>.single()\<close> the store answers with the row written when the update matched
  exactly one row; otherwise it answers with an error and rolls the write back.
\<close>

definition not_single :: string where
  "not_single = ''JSON object requested, multiple (or no) rows returned''"

definition run_update_single ::
  "string option \<Rightarrow> assignment \<Rightarrow> cond list \<Rightarrow> string list \<Rightarrow> row list \<Rightarrow> (string + row) \<times> row list" where
  "run_update_single err kvs cs cols rs =
     (case err of
        Some m \<Rightarrow> (Inl m, rs)
      | None \<Rightarrow>
          (case filter (matching cs) rs of
             [r] \<Rightarrow> (Inr (project cols (assign kvs r)), write_rows kvs cs rs)
           | _ \<Rightarrow> (Inl not_single, rs)))"

text \<open>\<^verbatim>\<open>.delete().<filters>\<close>\<close>

definition run_delete :: "string option \<Rightarrow> cond list \<Rightarrow> row list \<Rightarrow> string option \<times> row list" where
  "run_delete err cs rs =
     (case err of
        Some m \<Rightarrow> (Some m, rs)
      | None \<Rightarrow> (None, filter (\<lambda>r. \<not> matching cs r) rs))"

section \<open>Replies\<close>

text \<open>How the not-found message names the identifier that was used.\<close>

datatype ident = ID int | VIN string | Stock_Number "string option"

datatype notes_action = Notes_deleted | Notes_updated | Notes_added

text \<open>
  One constructor for each \<^verbatim>\<open>return\<close> of the tools, with the values its text interpolates:
  \<^item> \<open>MissingCredentials\<close>: \<^verbatim>\<open>Error: Missing Supabase credentials. ...\<close>
  \<^item> \<open>NoIdentifier\<close>: \<^verbatim>\<open>Error: Please provide one identifier ...\<close>
    (delete-vehicle: \<^verbatim>\<open>Error: Please provide either 'vin' or 'stockNumber' ...\<close>)
  \<^item> \<open>AmbiguousIdentifier\<close>: \<^verbatim>\<open>Error: Please provide only one identifier ..., not multiple.\<close>
    (delete-vehicle: \<^verbatim>\<open>..., not both.\<close>)
  \<^item> \<open>NotesMissing\<close>: \<^verbatim>\<open>Error: Please provide 'notes' field. ...\<close>
  \<^item> \<open>NoFieldsToUpdate\<close>: \<^verbatim>\<open>Error: No fields provided to update. ...\<close>
  \<^item> \<open>NoTargetCriteria\<close>: \<^verbatim>\<open>Error: Please specify at least one identifier ... or filter ...\<close>
  \<^item> \<open>StoreReadFailed m\<close>: \<^verbatim>\<open>Error finding vehicle(s): m\<close>, \<^verbatim>\<open>Error fetching vehicles: m\<close>
  \<^item> \<open>NotFound i\<close>: \<^verbatim>\<open>No vehicle found with i.\<close>
  \<^item> \<open>NoneMatching\<close>: \<^verbatim>\<open>No vehicles found matching the specified criteria.\<close>
  \<^item> \<open>NoVehicles\<close>: \<^verbatim>\<open>No vehicles found.\<close>
  \<^item> \<open>MultipleMatches\<close>: \<^verbatim>\<open>Error: Multiple vehicles found with the same identifier. ...\<close>
  \<^item> \<open>NoAiVideo v\<close>: \<^verbatim>\<open>Vehicle ... does not have an AI video to delete.\<close>
  \<^item> \<open>NoStockNumber v\<close>: \<^verbatim>\<open>Vehicle ... does not have a stock number. ...\<close>
  \<^item> \<open>StoreWriteFailed m\<close>: \<^verbatim>\<open>Error updating vehicle(s): m\<close>, \<^verbatim>\<open>Error deleting vehicle: m\<close>
  \<^item> the others are the success texts.

  The store client reports a failed request in its result (\<^verbatim>\<open>{ data, error }\<close>), which is the
  \<open>select_error\<close> and \<open>write_error\<close> of the surroundings; the outer \<^verbatim>\<open>catch\<close> of each
  tool, for an exception thrown elsewhere, has no counterpart here.
\<close>

datatype reply =
    MissingCredentials
  | NoIdentifier
  | AmbiguousIdentifier
  | NotesMissing
  | NoFieldsToUpdate
  | NoTargetCriteria
  | StoreReadFailed string
  | NotFound ident
  | NoneMatching
  | NoVehicles
  | MultipleMatches
  | NoAiVideo row
  | NoStockNumber row
  | StoreWriteFailed string
  | Found "row list"
  | VehiclesUpdated "row list" assignment
  | NotesSaved notes_action row row val
  | AiVideoDeleted row row val string
  | VehicleDeleted row

text \<open>The outcome of one invocation: the reply, the requests sent in order, the store after.\<close>

record result =
  reply :: reply
  issued :: "call list"
  after :: store

text \<open>A return before any request is sent.\<close>

definition refuse :: "reply \<Rightarrow> store \<Rightarrow> result" where
  "refuse r st = \<lparr>reply = r, issued = [], after = st\<rparr>"

section \<open>Identifier resolution shared by add-notes and delete-ai-video\<close>

text \<open>\<^verbatim>\<open>[id, vin, stockNumber].filter(Boolean).length\<close>\<close>

definition identifierCount :: "args \<Rightarrow> nat" where
  "identifierCount a =
     length (filter (\<lambda>b. b) [truthy_num (id' a), truthy_str (vin a), truthy_str (stockNumber a)])"

text \<open>
  \<^verbatim>\<open>if (id) query.eq('id', id) else if (vin) query.eq('vin', vin)
  else if (stockNumber) query.eq('stock_number', stockNumber)\<close>
\<close>

definition identifier_filter :: "args \<Rightarrow> cond list" where
  "identifier_filter a =
     (if truthy_num (id' a) then [Eq ''id'' (Num (the (id' a)))]
      else if truthy_str (vin a) then [Eq ''vin'' (Str (the (vin a)))]
      else if truthy_str (stockNumber a) then [Eq ''stock_number'' (Str (the (stockNumber a)))]
      else [])"

text \<open>\<^verbatim>\<open>id ? `ID: ${id}` : vin ? `VIN: ${vin}` : `Stock Number: ${stockNumber}`\<close>\<close>

definition identifier_text :: "args \<Rightarrow> ident" where
  "identifier_text a =
     (if truthy_num (id' a) then ID (the (id' a))
      else if truthy_str (vin a) then VIN (the (vin a))
      else Stock_Number (stockNumber a))"

section \<open>add-notes\<close>

definition addNotes :: "env \<Rightarrow> ext \<Rightarrow> args \<Rightarrow> store \<Rightarrow> result" where
  "addNotes e x a st =
     (if \<not> configured e then refuse MissingCredentials st
      else if identifierCount a = 0 then refuse NoIdentifier st
      else if identifierCount a > 1 then refuse AmbiguousIdentifier st
      else if notes' a = None then refuse NotesMissing st
      else
        let cols = [''id'', ''year'', ''make'', ''model'', ''vin'', ''stock_number'', ''notes''];
            query = Is_null ''deleted_at'' # identifier_filter a
        in case run_select (select_error x) cols query (vehicles st) of
             Inl m \<Rightarrow> \<lparr>reply = StoreReadFailed m, issued = [Select cols query], after = st\<rparr>
           | Inr [] \<Rightarrow>
               \<lparr>reply = NotFound (identifier_text a), issued = [Select cols query], after = st\<rparr>
           | Inr [vehicle] \<Rightarrow>
               let notesValue = (case notes' a of Some (Some s) \<Rightarrow> if s = [] then Null else Str s
                                 | _ \<Rightarrow> Null);
                   updateData = [(''notes'', notesValue), (''updated_at'', Str (now x))];
                   target = [Eq ''id'' (vehicle ''id'')];
                   ret = [''id'', ''year'', ''make'', ''model'', ''vin'', ''notes''];
                   sent = [Select cols query, Update updateData target ret]
               in (case run_update_single (write_error x) updateData target ret
                          (concurrent x (vehicles st)) of
                     (Inl m, rs) \<Rightarrow>
                       \<lparr>reply = StoreWriteFailed m, issued = sent, after = st\<lparr>vehicles := rs\<rparr>\<rparr>
                   | (Inr updatedVehicle, rs) \<Rightarrow>
                       let action = (if notesValue = Null then Notes_deleted
                                     else if truthy (vehicle ''notes'') then Notes_updated
                                     else Notes_added)
                       in \<lparr>reply = NotesSaved action vehicle updatedVehicle notesValue,
                           issued = sent, after = st\<lparr>vehicles := rs\<rparr>\<rparr>)
           | Inr (_ # _ # _) \<Rightarrow>
               \<lparr>reply = MultipleMatches, issued = [Select cols query], after = st\<rparr>)"

section \<open>delete-vehicle\<close>

text \<open>
  \<^verbatim>\<open>if (vin) query.eq('vin', vin) else if (stockNumber) query.eq('stock_number', stockNumber)\<close>;
  the query starts from \<^verbatim>\<open>.select(...)\<close> alone.
\<close>

definition deleteVehicle_filter :: "args \<Rightarrow> cond list" where
  "deleteVehicle_filter a =
     (if truthy_str (vin a) then [Eq ''vin'' (Str (the (vin a)))]
      else if truthy_str (stockNumber a) then [Eq ''stock_number'' (Str (the (stockNumber a)))]
      else [])"

text \<open>\<^verbatim>\<open>vin ? `VIN: ${vin}` : `Stock Number: ${stockNumber}`\<close>\<close>

definition deleteVehicle_text :: "args \<Rightarrow> ident" where
  "deleteVehicle_text a =
     (if truthy_str (vin a) then VIN (the (vin a)) else Stock_Number (stockNumber a))"

definition deleteVehicle :: "env \<Rightarrow> ext \<Rightarrow> args \<Rightarrow> store \<Rightarrow> result" where
  "deleteVehicle e x a st =
     (if \<not> configured e then refuse MissingCredentials st
      else if \<not> truthy_str (vin a) \<and> \<not> truthy_str (stockNumber a) then refuse NoIdentifier st
      else if truthy_str (vin a) \<and> truthy_str (stockNumber a) then refuse AmbiguousIdentifier st
      else
        let cols = [''id'', ''year'', ''make'', ''model'', ''vin'', ''stock_number''];
            query = deleteVehicle_filter a
        in case run_select (select_error x) cols query (vehicles st) of
             Inl m \<Rightarrow> \<lparr>reply = StoreReadFailed m, issued = [Select cols query], after = st\<rparr>
           | Inr [] \<Rightarrow>
               \<lparr>reply = NotFound (deleteVehicle_text a), issued = [Select cols query], after = st\<rparr>
           | Inr [vehicleToDelete] \<Rightarrow>
               let target = [Eq ''id'' (vehicleToDelete ''id'')];
                   sent = [Select cols query, Delete target]
               in (case run_delete (write_error x) target (concurrent x (vehicles st)) of
                     (Some m, rs) \<Rightarrow>
                       \<lparr>reply = StoreWriteFailed m, issued = sent, after = st\<lparr>vehicles := rs\<rparr>\<rparr>
                   | (None, rs) \<Rightarrow>
                       \<lparr>reply = VehicleDeleted vehicleToDelete, issued = sent,
                        after = st\<lparr>vehicles := rs\<rparr>\<rparr>)
           | Inr (_ # _ # _) \<Rightarrow>
               \<lparr>reply = MultipleMatches, issued = [Select cols query], after = st\<rparr>)"

section \<open>delete-ai-video\<close>

text \<open>Template interpolation \<^verbatim>\<open>${v}\<close> of a column value; numbers print in decimal.\<close>

function decimal :: "nat \<Rightarrow> string" where
  "decimal n = (if n < 10 then [char_of (48 + n)] else decimal (n div 10) @ [char_of (48 + n mod 10)])"
  by pat_completeness auto
termination
  by (relation "measure (\<lambda>n. n)") auto

definition template :: "val \<Rightarrow> string" where
  "template v =
     (case v of
        Null \<Rightarrow> ''null''
      | Num n \<Rightarrow> if n < 0 then CHR ''-'' # decimal (nat (- n)) else decimal (nat n)
      | Str s \<Rightarrow> s)"

text \<open>The result of \<^verbatim>\<open>deleteFromR2\<close>: \<^verbatim>\<open>{ success: boolean; error?: string }\<close>.\<close>

record r2_result =
  success :: bool
  error :: "string option"

text \<open>
  \<^verbatim>\<open>deleteFromR2\<close> sends the delete command and catches whatever it throws. A failed
  command leaves the object where it is.
\<close>

definition deleteFromR2 ::
  "string option \<Rightarrow> string \<Rightarrow> string \<Rightarrow> (string \<times> string) set \<Rightarrow> r2_result \<times> (string \<times> string) set" where
  "deleteFromR2 err bucketName objectKey objs =
     (case err of
        None \<Rightarrow> (\<lparr>success = True, error = None\<rparr>, objs - {(bucketName, objectKey)})
      | Some m \<Rightarrow> (\<lparr>success = False, error = Some m\<rparr>, objs))"

text \<open>\<^verbatim>\<open>if (r2Endpoint && r2AccessKeyId && r2SecretAccessKey && r2BucketName)\<close>\<close>

definition r2_configured :: "env \<Rightarrow> bool" where
  "r2_configured e =
     (truthy_str (R2_ENDPOINT e) \<and> truthy_str (R2_ACCESS_KEY_ID e) \<and>
      truthy_str (R2_SECRET_ACCESS_KEY e) \<and> truthy_str (R2_BUCKET_NAME e))"

text \<open>
  The part of the success text that reports the object cleanup (the bytes are the UTF-8
  encoding of the check mark and of the warning sign, \<open>0x0A\<close> is the newline). The whole
  text is a header that depends on the vehicle only, this part, and a fixed last line.
\<close>

definition r2_report :: "r2_result option \<Rightarrow> string" where
  "r2_report r2DeleteResult =
     (case r2DeleteResult of
        Some res \<Rightarrow>
          if success res then
            [CHR 0xE2, CHR 0x9C, CHR 0x85] @ '' File deleted from Cloudflare R2'' @ [CHR 0x0A]
          else
            [CHR 0xE2, CHR 0x9A, CHR 0xA0, CHR 0xEF, CHR 0xB8, CHR 0x8F]
              @ ''  Warning: Could not delete file from Cloudflare R2: ''
              @ (case error res of Some m \<Rightarrow> m | None \<Rightarrow> ''undefined'') @ [CHR 0x0A]
              @ ''   (Database field has been set to null)'' @ [CHR 0x0A]
      | None \<Rightarrow>
          [CHR 0xE2, CHR 0x9A, CHR 0xA0, CHR 0xEF, CHR 0xB8, CHR 0x8F]
            @ ''  Note: Cloudflare R2 credentials not configured. Only database field was updated.''
            @ [CHR 0x0A])"

definition deleteAiVideo :: "env \<Rightarrow> ext \<Rightarrow> args \<Rightarrow> store \<Rightarrow> result" where
  "deleteAiVideo e x a st =
     (if \<not> configured e then refuse MissingCredentials st
      else if identifierCount a = 0 then refuse NoIdentifier st
      else if identifierCount a > 1 then refuse AmbiguousIdentifier st
      else
        let cols = [''id'', ''year'', ''make'', ''model'', ''vin'', ''stock_number'', ''ai_video''];
            query = Is_null ''deleted_at'' # identifier_filter a
        in case run_select (select_error x) cols query (vehicles st) of
             Inl m \<Rightarrow> \<lparr>reply = StoreReadFailed m, issued = [Select cols query], after = st\<rparr>
           | Inr [] \<Rightarrow>
               \<lparr>reply = NotFound (identifier_text a), issued = [Select cols query], after = st\<rparr>
           | Inr [vehicle] \<Rightarrow>
               if \<not> truthy (vehicle ''ai_video'') then
                 \<lparr>reply = NoAiVideo vehicle, issued = [Select cols query], after = st\<rparr>
               else if \<not> truthy (vehicle ''stock_number'') then
                 \<lparr>reply = NoStockNumber vehicle, issued = [Select cols query], after = st\<rparr>
               else
                 let aiVideoUrl = vehicle ''ai_video'';
                     objectKey = ''vehicles/'' @ template (vehicle ''stock_number'') @ ''/ai-video.mp4'';
                     (r2DeleteResult, r2_calls, objs) =
                       (if r2_configured e then
                          (case deleteFromR2 (r2_error x) (the (R2_BUCKET_NAME e)) objectKey (objects st) of
                             (res, os) \<Rightarrow> (Some res, [R2_delete (the (R2_BUCKET_NAME e)) objectKey], os))
                        else (None, [], objects st));
                     updateData = [(''ai_video'', Null), (''updated_at'', Str (now x))];
                     target = [Eq ''id'' (vehicle ''id'')];
                     ret = [''id'', ''year'', ''make'', ''model'', ''vin'', ''ai_video''];
                     sent = [Select cols query] @ r2_calls @ [Update updateData target ret]
                 in (case run_update_single (write_error x) updateData target ret
                            (concurrent x (vehicles st)) of
                       (Inl m, rs) \<Rightarrow>
                         \<lparr>reply = StoreWriteFailed m, issued = sent,
                          after = \<lparr>vehicles = rs, objects = objs\<rparr>\<rparr>
                     | (Inr updatedVehicle, rs) \<Rightarrow>
                         \<lparr>reply = AiVideoDeleted vehicle updatedVehicle aiVideoUrl (r2_report r2DeleteResult),
                          issued = sent, after = \<lparr>vehicles = rs, objects = objs\<rparr>\<rparr>)
           | Inr (_ # _ # _) \<Rightarrow>
               \<lparr>reply = MultipleMatches, issued = [Select cols query], after = st\<rparr>)"

section \<open>update-vehicles\<close>

text \<open>\<^verbatim>\<open>if (field !== undefined) updateData.column = field\<close>\<close>

definition provided :: "string \<Rightarrow> val option \<Rightarrow> assignment" where
  "provided column field = (case field of None \<Rightarrow> [] | Some v \<Rightarrow> [(column, v)])"

text \<open>The update object, in the order the keys are inserted; the argument is the clock.\<close>

definition updateData_of :: "string \<Rightarrow> args \<Rightarrow> assignment" where
  "updateData_of t a =
     [(''updated_at'', Str t)]
     @ provided ''price'' (map_option Num (price a))
     @ provided ''custom_price'' (map_option Num (customPrice a))
     @ provided ''colour'' (map_option Str (colour a))
     @ provided ''interior_color'' (map_option Str (interiorColor a))
     @ provided ''description'' (map_option Str (description a))
     @ provided ''ai_description'' (map_option Str (aiDescription a))
     @ provided ''odometer'' (map_option Num (odometer a))
     @ provided ''new_used'' (map_option Str (newUsed a))
     @ provided ''certified'' (map_option Str (certified a))
     @ provided ''dealer_name'' (map_option Str (dealerName a))
     @ provided ''tags'' (map_option Str (tags a))
     @ provided ''inventory_date'' (map_option Str (inventoryDate a))"

text \<open>\<^verbatim>\<open>`%${value}%`\<close>\<close>

definition wildcard :: "string \<Rightarrow> string" where
  "wildcard v = ''%'' @ v @ ''%''"

text \<open>
  The chain that picks the rows to update; \<open>None\<close> is its last \<^verbatim>\<open>else\<close>, the return of
  the error that asks for an identifier or a filter.
\<close>

definition target_filter :: "args \<Rightarrow> cond list option" where
  "target_filter a =
     (if truthy_num (id' a) then Some [Eq ''id'' (Num (the (id' a)))]
      else if truthy_str (vin a) then Some [Eq ''vin'' (Str (the (vin a)))]
      else if truthy_str (stockNumber a) then Some [Eq ''stock_number'' (Str (the (stockNumber a)))]
      else if truthy_str (make' a) \<or> truthy_str (model a) then
        Some ((if truthy_str (make' a) then [Ilike ''make'' (wildcard (the (make' a)))] else [])
              @ (if truthy_str (model a) then [Ilike ''model'' (wildcard (the (model a)))] else []))
      else None)"

definition updateVehicles :: "env \<Rightarrow> ext \<Rightarrow> args \<Rightarrow> store \<Rightarrow> result" where
  "updateVehicles e x a st =
     (if \<not> configured e then refuse MissingCredentials st
      else
        let updateData = updateData_of (now x) a
        in if length updateData = 1 then refuse NoFieldsToUpdate st
           else
             (case target_filter a of
                None \<Rightarrow> refuse NoTargetCriteria st
              | Some fs \<Rightarrow>
                  let cols = [''id'', ''year'', ''make'', ''model'', ''vin''];
                      query = Is_null ''deleted_at'' # fs
                  in (case run_select (select_error x) cols query (vehicles st) of
                        Inl m \<Rightarrow>
                          \<lparr>reply = StoreReadFailed m, issued = [Select cols query], after = st\<rparr>
                      | Inr vehiclesToUpdate \<Rightarrow>
                          if vehiclesToUpdate = [] then
                            \<lparr>reply = NoneMatching, issued = [Select cols query], after = st\<rparr>
                          else
                            let vehicleIds = map (\<lambda>v. v ''id'') vehiclesToUpdate;
                                target = [In_list ''id'' vehicleIds];
                                sent = [Select cols query, Update updateData target cols]
                            in (case run_update (write_error x) updateData target cols
                                       (concurrent x (vehicles st)) of
                                  (Inl m, rs) \<Rightarrow>
                                    \<lparr>reply = StoreWriteFailed m, issued = sent,
                                     after = st\<lparr>vehicles := rs\<rparr>\<rparr>
                                | (Inr updatedData, rs) \<Rightarrow>
                                    \<lparr>reply = VehiclesUpdated updatedData updateData, issued = sent,
                                     after = st\<lparr>vehicles := rs\<rparr>\<rparr>))))"

section \<open>get-vehicles\<close>

text \<open>\<^verbatim>\<open>if (value) query = query.ilike(column, `%${value}%`)\<close>\<close>

definition text_filter :: "string \<Rightarrow> string option \<Rightarrow> cond list" where
  "text_filter column v = (if truthy_str v then [Ilike column (wildcard (the v))] else [])"

text \<open>
  The filters get-vehicles adds after \<^verbatim>\<open>.is('deleted_at', null)\<close>, in the order of the
  source. The later revision of the tool, which also takes \<^verbatim>\<open>sortBy\<close>, \<^verbatim>\<open>sortOrder\<close> and
  \<^verbatim>\<open>limit\<close>, builds the same filters line for line before it orders and cuts the rows.
\<close>

definition vehicle_filters :: "args \<Rightarrow> cond list" where
  "vehicle_filters a =
     text_filter ''make'' (make' a)
     @ text_filter ''model'' (model a)
     @ (if truthy_num (year a) then [Eq ''year'' (Num (the (year a)))] else [])
     @ (if truthy_num (minYear a) then [Gte ''year'' (Num (the (minYear a)))] else [])
     @ (if truthy_num (maxYear a) then [Lte ''year'' (Num (the (maxYear a)))] else [])
     @ (case minPrice a of None \<Rightarrow> [] | Some n \<Rightarrow> [Gte ''price'' (Num n)])
     @ (case maxPrice a of None \<Rightarrow> [] | Some n \<Rightarrow> [Lte ''price'' (Num n)])
     @ (case hasPrice a of None \<Rightarrow> []
        | Some b \<Rightarrow> if b then [Not_null ''price''] else [Is_null ''price''])
     @ text_filter ''colour'' (colour a)
     @ text_filter ''interior_color'' (interiorColor a)
     @ text_filter ''new_used'' (newUsed a)
     @ text_filter ''certified'' (certified a)
     @ text_filter ''transmission'' (transmission a)
     @ text_filter ''drivetrain_desc'' (drivetrain a)
     @ text_filter ''fuel'' (fuel a)
     @ (case maxOdometer a of None \<Rightarrow> [] | Some n \<Rightarrow> [Lte ''odometer'' (Num n)])
     @ text_filter ''body'' (body a)
     @ text_filter ''dealer_name'' (dealerName a)"

definition getVehicles :: "env \<Rightarrow> ext \<Rightarrow> args \<Rightarrow> store \<Rightarrow> result" where
  "getVehicles e x a st =
     (if \<not> configured e then refuse MissingCredentials st
      else
        let query = Is_null ''deleted_at'' # vehicle_filters a
        in case run_select (select_error x) [''*''] query (vehicles st) of
             Inl m \<Rightarrow> \<lparr>reply = StoreReadFailed m, issued = [Select [''*''] query], after = st\<rparr>
           | Inr data \<Rightarrow>
               if data = [] then
                 \<lparr>reply = NoVehicles, issued = [Select [''*''] query], after = st\<rparr>
               else \<lparr>reply = Found data, issued = [Select [''*''] query], after = st\<rparr>)"

section \<open>Notions the properties are stated with\<close>

text \<open>A row is soft-deleted when its \<^verbatim>\<open>deleted_at\<close> is not NULL.\<close>

definition soft_deleted :: "row \<Rightarrow> bool" where
  "soft_deleted r = (r ''deleted_at'' \<noteq> Null)"


text \<open>A pattern without \<^verbatim>\<open>%\<close>, \<^verbatim>\<open>_\<close> and backslash stands for itself.\<close>

definition literal :: "string \<Rightarrow> bool" where
  "literal p = list_all (\<lambda>c. c \<noteq> CHR ''%'' \<and> c \<noteq> CHR ''_'' \<and> c \<noteq> CHR 0x5C) p"

text \<open>A filter value in which no character is read as a wildcard or an escape.\<close>

definition no_wildcards :: "string \<Rightarrow> bool" where
  "no_wildcards v =
     list_all (\<lambda>c. c \<noteq> CHR ''%'' \<and> c \<noteq> CHR ''_'' \<and> c \<noteq> CHR 0x5C \<and> c \<noteq> CHR ''*'') v"

text \<open>Case-insensitive substring containment: \<open>s\<close> contains \<open>v\<close>.\<close>

definition contains_ci :: "string \<Rightarrow> string \<Rightarrow> bool" where
  "contains_ci v s = sublist (map lower v) (map lower s)"

text \<open>
  The descriptive text filters of get-vehicles as the specification lists them, each with
  the column it is matched against.
\<close>

definition descriptive_filters :: "((args \<Rightarrow> string option) \<times> string) list" where
  "descriptive_filters =
     [(make', ''make''), (model, ''model''), (colour, ''colour''),
      (interiorColor, ''interior_color''), (newUsed, ''new_used''),
      (certified, ''certified''), (transmission, ''transmission''),
      (drivetrain, ''drivetrain_desc''), (fuel, ''fuel''), (body, ''body''),
      (dealerName, ''dealer_name'')]"

text \<open>The same call with every falsy identifier left out.\<close>

definition drop_falsy :: "args \<Rightarrow> args" where
  "drop_falsy a =
     a\<lparr>id' := (if truthy_num (id' a) then id' a else None),
       vin := (if truthy_str (vin a) then vin a else None),
       stockNumber := (if truthy_str (stockNumber a) then stockNumber a else None)\<rparr>"

section \<open>Sample data\<close>

definition demo_env :: env where
  "demo_env = \<lparr>SUPABASE_URL = Some ''https://db.example'', SUPABASE_SERVICE_ROLE_KEY = Some ''key'',
     R2_ENDPOINT = None, R2_ACCESS_KEY_ID = None, R2_SECRET_ACCESS_KEY = None,
     R2_BUCKET_NAME = None\<rparr>"

definition demo_env_r2 :: env where
  "demo_env_r2 = \<lparr>SUPABASE_URL = Some ''https://db.example'', SUPABASE_SERVICE_ROLE_KEY = Some ''key'',
     R2_ENDPOINT = Some ''https://r2.example'', R2_ACCESS_KEY_ID = Some ''id'',
     R2_SECRET_ACCESS_KEY = Some ''secret'', R2_BUCKET_NAME = Some ''media''\<rparr>"

text \<open>No fault and no other writer.\<close>

definition quiet :: ext where
  "quiet = \<lparr>now = ''2025-01-01T00:00:00.000Z'', select_error = None, write_error = None,
     r2_error = None, concurrent = (\<lambda>rs. rs)\<rparr>"

text \<open>The object storage fails.\<close>

definition r2_down :: ext where
  "r2_down = \<lparr>now = ''2025-01-01T00:00:00.000Z'', select_error = None, write_error = None,
     r2_error = Some ''timeout'', concurrent = (\<lambda>rs. rs)\<rparr>"

text \<open>A row with an id, a VIN, a stock number, a make, an AI video and a deletion mark.\<close>

definition car :: "int \<Rightarrow> string \<Rightarrow> string \<Rightarrow> string \<Rightarrow> val \<Rightarrow> row" where
  "car i v s m d =
     (\<lambda>c. if c = ''id'' then Num i
          else if c = ''vin'' then Str v
          else if c = ''stock_number'' then Str s
          else if c = ''make'' then Str m
          else if c = ''ai_video'' then Str ''https://cdn.example/ai-video.mp4''
          else if c = ''deleted_at'' then d
          else Null)"

text \<open>One visible Ferrari and one soft-deleted Porsche.\<close>

definition showroom :: store where
  "showroom =
     \<lparr>vehicles = [car 1 ''X'' ''S1'' ''Ferrari'' Null,
                  car 2 ''Y'' ''S2'' ''Porsche'' (Str ''2024-06-01T00:00:00.000Z'')],
      objects = {}\<rparr>"

text \<open>Two visible rows that share a VIN.\<close>

definition twins :: store where
  "twins =
     \<lparr>vehicles = [car 1 ''X'' ''S1'' ''Ferrari'' Null, car 2 ''X'' ''S2'' ''Ferrari'' Null],
      objects = {}\<rparr>"

text \<open>Another writer renames the make of row 2 between a lookup and the write.\<close>

definition resync :: "row list \<Rightarrow> row list" where
  "resync rs = map (\<lambda>r. if r ''id'' = Num 2 then r(''make'' := Str ''Lotus'') else r) rs"

definition racing :: ext where
  "racing = \<lparr>now = ''2025-01-01T00:00:00.000Z'', select_error = None, write_error = None,
     r2_error = None, concurrent = resync\<rparr>"




section \<open>Facts about the store\<close>

lemma project_col: "c \<in> set cols \<Longrightarrow> project cols r c = r c"
  by (simp add: project_def)

lemma col_project: "c \<in> set cols \<Longrightarrow> (\<lambda>v. v c) \<circ> project cols = (\<lambda>r. r c)"
  by (auto simp: project_col)

lemma project_all: "project [''*''] r = r"
  by (simp add: project_def)





lemma run_select_one:
  "filter (matching cs) rs = [r] \<Longrightarrow> run_select None cols cs rs = Inr [project cols r]"
  by (simp add: run_select_def)

lemma two_or_more: "1 < length xs \<Longrightarrow> \<exists>a b ys. xs = a # b # ys"
  by (cases xs; cases "tl xs") auto

lemma run_update_single_ok:
  "filter (matching cs) rs = [r] \<Longrightarrow>
   run_update_single None kvs cs cols rs = (Inr (project cols (assign kvs r)), write_rows kvs cs rs)"
  by (simp add: run_update_single_def)

lemma run_update_single_Inr:
  "run_update_single err kvs cs cols rs = (Inr u, rs') \<Longrightarrow>
     err = None \<and> (\<exists>r. filter (matching cs) rs = [r] \<and> u = project cols (assign kvs r)
        \<and> rs' = write_rows kvs cs rs)"
  by (auto simp: run_update_single_def split: option.splits list.splits)




lemma filter_write_rows:
  assumes "\<And>r. P (assign kvs r) = P r"
  shows "filter P (write_rows kvs cs rs) =
           map (\<lambda>r. if matching cs r then assign kvs r else r) (filter P rs)"
  by (induction rs) (simp_all add: write_rows_def assms)





section \<open>Facts about the pattern match\<close>

lemma like_literal: "literal p \<Longrightarrow> like_match p s = (s = p)"
proof (induction p arbitrary: s)
  case Nil
  show ?case by simp
next
  case (Cons c p)
  then show ?case
    by (cases s) (auto simp: literal_def)
qed

lemma like_percent: "like_match ''%'' s"
  by (induction s) simp_all

lemma like_prefix: "literal p \<Longrightarrow> like_match (p @ ''%'') s = prefix p s"
proof (induction p arbitrary: s)
  case Nil
  show ?case using like_percent by simp
next
  case (Cons c p)
  then show ?case
    by (cases s) (auto simp: literal_def)
qed

lemma like_sublist: "literal p \<Longrightarrow> like_match (CHR ''%'' # p @ ''%'') s = sublist p s"
proof (induction s)
  case Nil
  then show ?case using like_prefix [of p "[]"] by simp
next
  case (Cons c s)
  then show ?case using like_prefix [of p "c # s"]
    by (simp add: sublist_Cons_right)
qed

lemma of_char_lower:
  "(of_char (lower c) :: nat) =
     (if 65 \<le> (of_char c :: nat) \<and> (of_char c :: nat) \<le> 90 then of_char c + 32 else of_char c)"
  by (simp add: lower_def)

lemma lower_keeps:
  assumes "of_char k < (65::nat) \<or> (90::nat) < of_char k"
    and "of_char k < (97::nat) \<or> (122::nat) < of_char k"
  shows "(lower c = k) = (c = k)"
proof
  assume "lower c = k"
  then have "(of_char (lower c) :: nat) = of_char k" by simp
  with assms have "\<not> (65 \<le> (of_char c :: nat) \<and> (of_char c :: nat) \<le> 90)"
    by (auto simp: of_char_lower split: if_splits)
  with \<open>lower c = k\<close> show "c = k" by (simp add: lower_def)
next
  assume "c = k"
  with assms show "lower c = k" by (auto simp: lower_def)
qed

lemma lower_percent: "(lower c = CHR ''%'') = (c = CHR ''%'')"
  by (rule lower_keeps) simp_all

lemma lower_underscore: "(lower c = CHR ''_'') = (c = CHR ''_'')"
  by (rule lower_keeps) simp_all

lemma lower_backslash: "(lower c = CHR 0x5C) = (c = CHR 0x5C)"
  by (rule lower_keeps) simp_all

lemma lower_percent_self: "lower CHR ''%'' = CHR ''%''"
  by (simp add: lower_percent)

lemma literal_lower: "no_wildcards v \<Longrightarrow> literal (map lower v)"
  by (induction v)
     (simp_all add: literal_def no_wildcards_def lower_percent lower_underscore lower_backslash)

lemma star_plain: "no_wildcards v \<Longrightarrow> map star v = v"
  by (induction v) (simp_all add: no_wildcards_def star_def)

lemma ilike_contains: "no_wildcards v \<Longrightarrow> ilike (wildcard v) s = contains_ci v s"
  using like_sublist [OF literal_lower, of v "map lower s"]
  by (simp add: ilike_def wildcard_def contains_ci_def star_plain star_def lower_percent_self)

lemma sat_ilike_contains:
  "no_wildcards v \<Longrightarrow> sat (Ilike c (wildcard v)) r = (\<exists>s. r c = Str s \<and> contains_ci v s)"
  by (cases "r c") (simp_all add: ilike_contains)

section \<open>Facts about the tools\<close>

subsection \<open>The lookups sent, and what can become of the table\<close>















subsection \<open>update-vehicles\<close>

lemma updateVehicles_mutation:
  assumes "configured e" "length (updateData_of (now x) a) \<noteq> 1" "target_filter a = Some fs"
    and "select_error x = None"
    and "ids = map (\<lambda>r. r ''id'') (filter (matching (Is_null ''deleted_at'' # fs)) (vehicles st))"
    and "ids \<noteq> []"
  shows "issued (updateVehicles e x a st) =
           [Select [''id'', ''year'', ''make'', ''model'', ''vin''] (Is_null ''deleted_at'' # fs),
            Update (updateData_of (now x) a) [In_list ''id'' ids]
              [''id'', ''year'', ''make'', ''model'', ''vin'']]"
    and "vehicles (after (updateVehicles e x a st)) =
           (if write_error x = None
            then map (\<lambda>r. if r ''id'' \<noteq> Null \<and> r ''id'' \<in> set ids
                           then assign (updateData_of (now x) a) r else r)
                   (concurrent x (vehicles st))
            else concurrent x (vehicles st))"
    and "reply (updateVehicles e x a st) \<noteq> AmbiguousIdentifier"
    and "reply (updateVehicles e x a st) \<noteq> MultipleMatches"
  using assms
  by (auto simp: updateVehicles_def Let_def run_select_def run_update_def col_project
        write_rows_def matching_def split: option.splits)

lemma updateVehicles_never:
  "reply (updateVehicles e x a st) \<noteq> AmbiguousIdentifier"
  "reply (updateVehicles e x a st) \<noteq> MultipleMatches"
  by (simp_all add: updateVehicles_def refuse_def Let_def split_beta split: option.split sum.split)

lemma provided_Nil: "(provided k v = []) = (v = None)"
  by (simp add: provided_def split: option.split)

lemma only_updated_at:
  "(length (updateData_of t a) = 1) =
     (price a = None \<and> customPrice a = None \<and> colour a = None \<and> interiorColor a = None \<and>
      description a = None \<and> aiDescription a = None \<and> odometer a = None \<and> newUsed a = None \<and>
      certified a = None \<and> dealerName a = None \<and> tags a = None \<and> inventoryDate a = None)"
  by (simp add: updateData_of_def provided_Nil)

lemma no_fields_reply:
  "reply (updateVehicles e x a st) = NoFieldsToUpdate \<Longrightarrow> length (updateData_of (now x) a) = 1"
  by (simp add: updateVehicles_def Let_def refuse_def split_beta
      split: if_splits option.splits sum.splits)

lemma updateVehicles_updates:
  "list_all (\<lambda>c. case c of Update kvs cs cols \<Rightarrow> kvs = updateData_of (now x) a | _ \<Rightarrow> True)
     (issued (updateVehicles e x a st))"
  by (simp add: updateVehicles_def refuse_def Let_def split_beta split: sum.split option.split)

lemma map_of_provided:
  "map_of (provided k v @ kvs) c = (if c = k \<and> v \<noteq> None then v else map_of kvs c)"
  by (simp add: provided_def split: option.split)

lemma map_of_provided_last: "map_of (provided k v) c = (if c = k then v else None)"
  by (simp add: provided_def split: option.split)

lemma assigned:
  "map_of (updateData_of t a) ''updated_at'' = Some (Str t)"
  "map_of (updateData_of t a) ''price'' = map_option Num (price a)"
  "map_of (updateData_of t a) ''custom_price'' = map_option Num (customPrice a)"
  "map_of (updateData_of t a) ''colour'' = map_option Str (colour a)"
  "map_of (updateData_of t a) ''interior_color'' = map_option Str (interiorColor a)"
  "map_of (updateData_of t a) ''description'' = map_option Str (description a)"
  "map_of (updateData_of t a) ''ai_description'' = map_option Str (aiDescription a)"
  "map_of (updateData_of t a) ''odometer'' = map_option Num (odometer a)"
  "map_of (updateData_of t a) ''new_used'' = map_option Str (newUsed a)"
  "map_of (updateData_of t a) ''certified'' = map_option Str (certified a)"
  "map_of (updateData_of t a) ''dealer_name'' = map_option Str (dealerName a)"
  "map_of (updateData_of t a) ''tags'' = map_option Str (tags a)"
  "map_of (updateData_of t a) ''inventory_date'' = map_option Str (inventoryDate a)"
  by (simp_all add: updateData_of_def map_of_provided map_of_provided_last del: map_of_append)

lemma fst_provided: "set (map fst (provided k v)) \<subseteq> {k}"
  by (cases v) (simp_all add: provided_def)

lemma assigned_columns:
  "set (map fst (updateData_of t a)) \<subseteq>
     {''updated_at'', ''price'', ''custom_price'', ''colour'', ''interior_color'', ''description'',
      ''ai_description'', ''odometer'', ''new_used'', ''certified'', ''dealer_name'', ''tags'',
      ''inventory_date''}"
  unfolding updateData_of_def map_append set_append
  by (intro Un_least subset_trans [OF fst_provided]) simp_all

lemma updateVehicles_cong:
  assumes "updateData_of (now x) a = updateData_of (now x) b"
    and "target_filter a = target_filter b"
  shows "updateVehicles e x a st = updateVehicles e x b st"
  unfolding updateVehicles_def assms ..

subsection \<open>add-notes\<close>

lemma addNotes_multiple:
  assumes "configured e" "identifierCount a = 1" "notes' a \<noteq> None" "select_error x = None"
    and "1 < length (filter (matching (Is_null ''deleted_at'' # identifier_filter a)) (vehicles st))"
  shows "addNotes e x a st =
     \<lparr>reply = MultipleMatches,
      issued = [Select [''id'', ''year'', ''make'', ''model'', ''vin'', ''stock_number'', ''notes'']
                  (Is_null ''deleted_at'' # identifier_filter a)],
      after = st\<rparr>"
proof -
  from two_or_more [OF assms(5)] obtain r1 r2 rs where
    "filter (matching (Is_null ''deleted_at'' # identifier_filter a)) (vehicles st) = r1 # r2 # rs"
    by blast
  moreover from assms(3) obtain n where "notes' a = Some n"
    by blast
  ultimately show ?thesis
    using assms(1,2,4) by (simp add: addNotes_def Let_def run_select_def)
qed

lemma addNotes_proceeds:
  assumes "configured e" "identifierCount a = 1" "notes' a = Some n" "select_error x = None"
    and "filter (matching (Is_null ''deleted_at'' # identifier_filter a)) (vehicles st) = [r]"
  shows "issued (addNotes e x a st) =
           [Select [''id'', ''year'', ''make'', ''model'', ''vin'', ''stock_number'', ''notes'']
              (Is_null ''deleted_at'' # identifier_filter a),
            Update [(''notes'', case n of Some s \<Rightarrow> if s = [] then Null else Str s | None \<Rightarrow> Null),
                    (''updated_at'', Str (now x))]
              [Eq ''id'' (r ''id'')] [''id'', ''year'', ''make'', ''model'', ''vin'', ''notes'']]"
  using assms
  by (simp add: addNotes_def run_select_one Let_def project_col split_beta split: sum.split)

lemma addNotes_cong:
  assumes "identifierCount a = identifierCount b"
    and "identifier_filter a = identifier_filter b"
    and "identifier_text a = identifier_text b"
    and "(notes' a = None) = (notes' b = None)"
    and "(case notes' a of Some (Some s) \<Rightarrow> if s = [] then Null else Str s | _ \<Rightarrow> Null) =
         (case notes' b of Some (Some s) \<Rightarrow> if s = [] then Null else Str s | _ \<Rightarrow> Null)"
  shows "addNotes e x a st = addNotes e x b st"
  unfolding addNotes_def assms ..

lemma addNotes_clear_same:
  "addNotes e x (a\<lparr>notes' := Some (Some [])\<rparr>) st = addNotes e x (a\<lparr>notes' := Some None\<rparr>) st"
  by (rule addNotes_cong) (simp_all add: identifierCount_def identifier_filter_def identifier_text_def)

subsection \<open>delete-vehicle\<close>

lemma deleteVehicle_multiple:
  assumes "configured e" "truthy_str (vin a) \<noteq> truthy_str (stockNumber a)" "select_error x = None"
    and "1 < length (filter (matching (deleteVehicle_filter a)) (vehicles st))"
  shows "deleteVehicle e x a st =
     \<lparr>reply = MultipleMatches,
      issued = [Select [''id'', ''year'', ''make'', ''model'', ''vin'', ''stock_number'']
                  (deleteVehicle_filter a)],
      after = st\<rparr>"
proof -
  from two_or_more [OF assms(4)] obtain r1 r2 rs where
    "filter (matching (deleteVehicle_filter a)) (vehicles st) = r1 # r2 # rs"
    by blast
  with assms(1-3) show ?thesis
    by (auto simp: deleteVehicle_def Let_def run_select_def)
qed



lemma deleteVehicle_cong:
  assumes "truthy_str (vin a) = truthy_str (vin b)"
    and "truthy_str (stockNumber a) = truthy_str (stockNumber b)"
    and "deleteVehicle_filter a = deleteVehicle_filter b"
    and "deleteVehicle_text a = deleteVehicle_text b"
  shows "deleteVehicle e x a st = deleteVehicle e x b st"
  unfolding deleteVehicle_def assms ..

subsection \<open>delete-ai-video\<close>

lemma deleteAiVideo_multiple:
  assumes "configured e" "identifierCount a = 1" "select_error x = None"
    and "1 < length (filter (matching (Is_null ''deleted_at'' # identifier_filter a)) (vehicles st))"
  shows "deleteAiVideo e x a st =
     \<lparr>reply = MultipleMatches,
      issued = [Select [''id'', ''year'', ''make'', ''model'', ''vin'', ''stock_number'', ''ai_video'']
                  (Is_null ''deleted_at'' # identifier_filter a)],
      after = st\<rparr>"
proof -
  from two_or_more [OF assms(4)] obtain r1 r2 rs where
    "filter (matching (Is_null ''deleted_at'' # identifier_filter a)) (vehicles st) = r1 # r2 # rs"
    by blast
  with assms(1-3) show ?thesis
    by (simp add: deleteAiVideo_def Let_def run_select_def)
qed

lemma deleteAiVideo_proceeds:
  assumes "configured e" "identifierCount a = 1" "select_error x = None"
    and "filter (matching (Is_null ''deleted_at'' # identifier_filter a)) (vehicles st) = [r]"
    and "truthy (r ''ai_video'')" "truthy (r ''stock_number'')"
  shows "issued (deleteAiVideo e x a st) =
           [Select [''id'', ''year'', ''make'', ''model'', ''vin'', ''stock_number'', ''ai_video'']
              (Is_null ''deleted_at'' # identifier_filter a)]
           @ (if r2_configured e
              then [R2_delete (the (R2_BUCKET_NAME e))
                      (''vehicles/'' @ template (r ''stock_number'') @ ''/ai-video.mp4'')]
              else [])
           @ [Update [(''ai_video'', Null), (''updated_at'', Str (now x))] [Eq ''id'' (r ''id'')]
                [''id'', ''year'', ''make'', ''model'', ''vin'', ''ai_video'']]"
  using assms
  by (simp add: deleteAiVideo_def run_select_one Let_def project_col split_beta split: sum.split)

lemma deleteAiVideo_succeeds:
  assumes "configured e" "identifierCount a = 1" "select_error x = None"
    and "filter (matching (Is_null ''deleted_at'' # identifier_filter a)) (vehicles st) = [r]"
    and "truthy (r ''ai_video'')" "truthy (r ''stock_number'')"
    and "write_error x = None"
    and "filter (matching [Eq ''id'' (r ''id'')]) (concurrent x (vehicles st)) = [r']"
  shows "reply (deleteAiVideo e x a st) =
           AiVideoDeleted
             (project [''id'', ''year'', ''make'', ''model'', ''vin'', ''stock_number'', ''ai_video''] r)
             (project [''id'', ''year'', ''make'', ''model'', ''vin'', ''ai_video'']
                (assign [(''ai_video'', Null), (''updated_at'', Str (now x))] r'))
             (r ''ai_video'')
             (r2_report (if r2_configured e
                         then Some (case r2_error x of None \<Rightarrow> \<lparr>success = True, error = None\<rparr>
                                    | Some m \<Rightarrow> \<lparr>success = False, error = Some m\<rparr>)
                         else None))"
    and "vehicles (after (deleteAiVideo e x a st)) =
           write_rows [(''ai_video'', Null), (''updated_at'', Str (now x))] [Eq ''id'' (r ''id'')]
             (concurrent x (vehicles st))"
  using assms
  by (simp_all add: deleteAiVideo_def run_select_one run_update_single_ok Let_def project_col
        deleteFromR2_def split_beta split: option.split)

lemma reports_differ:
  "r2_report None \<noteq> r2_report (Some \<lparr>success = True, error = None\<rparr>)"
  "r2_report None \<noteq> r2_report (Some \<lparr>success = False, error = Some m\<rparr>)"
  "r2_report (Some \<lparr>success = True, error = None\<rparr>) \<noteq> r2_report (Some \<lparr>success = False, error = Some m\<rparr>)"
  by (simp_all add: r2_report_def)

lemma written_video_null:
  assumes "r ''id'' \<noteq> Null"
    and "q \<in> set (write_rows [(''ai_video'', Null), (''updated_at'', t)] [Eq ''id'' (r ''id'')] rs)"
    and "q ''id'' = r ''id''"
  shows "q ''ai_video'' = Null"
  using assms by (auto simp: write_rows_def matching_def assign_def split: if_splits)

lemma deleteAiVideo_success_inv:
  assumes "reply (deleteAiVideo e x a st) = AiVideoDeleted v u url rep"
  shows "configured e \<and> identifierCount a = 1 \<and> select_error x = None \<and> write_error x = None \<and>
     (\<exists>r r'. filter (matching (Is_null ''deleted_at'' # identifier_filter a)) (vehicles st) = [r] \<and>
        truthy (r ''ai_video'') \<and> truthy (r ''stock_number'') \<and>
        filter (matching [Eq ''id'' (r ''id'')]) (concurrent x (vehicles st)) = [r'])"
proof -
  have c: "configured e" and n: "identifierCount a = 1"
    using assms by (auto simp: deleteAiVideo_def refuse_def split: if_splits)
  have s: "select_error x = None"
    using assms c n
    by (cases "select_error x") (auto simp: deleteAiVideo_def Let_def run_select_def)
  let ?q = "Is_null ''deleted_at'' # identifier_filter a"
  obtain r where r: "filter (matching ?q) (vehicles st) = [r]"
    using assms c n s
    by (cases "filter (matching ?q) (vehicles st)"; cases "tl (filter (matching ?q) (vehicles st))")
       (auto simp: deleteAiVideo_def Let_def run_select_def)
  have t: "truthy (r ''ai_video'')" "truthy (r ''stock_number'')"
    using assms c n s r
    by (auto simp: deleteAiVideo_def Let_def run_select_one project_col split: if_splits)
  have "\<exists>u rs. run_update_single (write_error x) [(''ai_video'', Null), (''updated_at'', Str (now x))]
           [Eq ''id'' (r ''id'')] [''id'', ''year'', ''make'', ''model'', ''vin'', ''ai_video'']
           (concurrent x (vehicles st)) = (Inr u, rs)"
    using assms c n s r t
    by (simp add: deleteAiVideo_def Let_def run_select_one project_col split_beta split: sum.splits)
       (metis prod.collapse)
  then obtain r' where "write_error x = None"
    "filter (matching [Eq ''id'' (r ''id'')]) (concurrent x (vehicles st)) = [r']"
    by (auto dest!: run_update_single_Inr)
  with c n s r t show ?thesis by blast
qed

lemma lookup_ignores_video:
  "matching (Is_null ''deleted_at'' # identifier_filter a)
      (assign [(''ai_video'', v1), (''updated_at'', v2)] r)
     = matching (Is_null ''deleted_at'' # identifier_filter a) r"
  by (simp add: matching_def identifier_filter_def assign_def)

lemma deleteAiVideo_cong:
  assumes "identifierCount a = identifierCount b"
    and "identifier_filter a = identifier_filter b"
    and "identifier_text a = identifier_text b"
  shows "deleteAiVideo e x a st = deleteAiVideo e x b st"
  unfolding deleteAiVideo_def assms ..

subsection \<open>get-vehicles\<close>

lemma map_project_all: "map (project [''*'']) rs = rs"
  by (induction rs) (simp_all add: project_all)

lemma getVehicles_found:
  "reply (getVehicles e x a st) = Found data \<Longrightarrow>
     data = filter (matching (Is_null ''deleted_at'' # vehicle_filters a)) (vehicles st)"
  by (auto simp: getVehicles_def refuse_def Let_def run_select_def map_project_all
      split: if_splits sum.splits option.splits)

lemma getVehicles_returns:
  assumes "configured e" "select_error x = None"
    and "r \<in> set (vehicles st)" "\<not> soft_deleted r" "matching (vehicle_filters a) r"
  shows "\<exists>data. reply (getVehicles e x a st) = Found data \<and> r \<in> set data"
proof -
  from assms(3-5) have "r \<in> set (filter (matching (Is_null ''deleted_at'' # vehicle_filters a)) (vehicles st))"
    by (simp add: matching_def soft_deleted_def)
  moreover from this
  have "filter (matching (Is_null ''deleted_at'' # vehicle_filters a)) (vehicles st) \<noteq> []"
    by (metis empty_iff list.set(1))
  ultimately show ?thesis
    using assms(1,2)
    by (simp add: getVehicles_def Let_def run_select_def map_project_all)
qed

lemma text_filters_subset:
  "(field, column) \<in> set descriptive_filters \<Longrightarrow>
     set (text_filter column (field a)) \<subseteq> set (vehicle_filters a)"
  unfolding descriptive_filters_def vehicle_filters_def set_append list.set
  by blast

lemma descriptive_filter_built:
  assumes "(field, column) \<in> set descriptive_filters" "field a = Some v" "v \<noteq> []"
  shows "Ilike column (wildcard v) \<in> set (vehicle_filters a)"
proof -
  have "Ilike column (wildcard v) \<in> set (text_filter column (field a))"
    using assms(2,3) by (simp add: text_filter_def truthy_str_def)
  with text_filters_subset [OF assms(1), of a] show ?thesis
    by blast
qed

subsection \<open>Falsy identifiers\<close>

lemma truthy_None: "\<not> truthy_num None" "\<not> truthy_str None"
  by (simp_all add: truthy_num_def truthy_str_def)

lemma drop_falsy_count: "identifierCount (drop_falsy a) = identifierCount a"
  by (simp add: identifierCount_def drop_falsy_def truthy_None)

lemma drop_falsy_filter: "identifier_filter (drop_falsy a) = identifier_filter a"
  by (simp add: identifier_filter_def drop_falsy_def truthy_None)

lemma drop_falsy_text: "identifierCount a = 1 \<Longrightarrow> identifier_text (drop_falsy a) = identifier_text a"
  by (auto simp: identifier_text_def identifierCount_def drop_falsy_def truthy_None split: if_splits)

lemma drop_falsy_target: "target_filter (drop_falsy a) = target_filter a"
  by (simp add: target_filter_def drop_falsy_def truthy_None)

lemma drop_falsy_updateData: "updateData_of t (drop_falsy a) = updateData_of t a"
  by (simp add: updateData_of_def drop_falsy_def)

lemma drop_falsy_dv_filter: "deleteVehicle_filter (drop_falsy a) = deleteVehicle_filter a"
  by (simp add: deleteVehicle_filter_def drop_falsy_def truthy_None)

lemma drop_falsy_dv_text:
  "truthy_str (vin a) \<or> truthy_str (stockNumber a) \<Longrightarrow>
     deleteVehicle_text (drop_falsy a) = deleteVehicle_text a"
  by (auto simp: deleteVehicle_text_def drop_falsy_def truthy_None)

lemma drop_falsy_truthy:
  "truthy_str (vin (drop_falsy a)) = truthy_str (vin a)"
  "truthy_str (stockNumber (drop_falsy a)) = truthy_str (stockNumber a)"
  "truthy_num (id' (drop_falsy a)) = truthy_num (id' a)"
  by (simp_all add: drop_falsy_def truthy_None)

lemma drop_falsy_notes:
  "(notes' (drop_falsy a) = None) = (notes' a = None)"
  "(case notes' (drop_falsy a) of Some (Some s) \<Rightarrow> if s = [] then Null else Str s | _ \<Rightarrow> Null) =
   (case notes' a of Some (Some s) \<Rightarrow> if s = [] then Null else Str s | _ \<Rightarrow> Null)"
  by (simp_all add: drop_falsy_def)

lemma addNotes_drop_falsy: "addNotes e x (drop_falsy a) st = addNotes e x a st"
proof (cases "identifierCount a = 1")
  case True
  then show ?thesis
    by (intro addNotes_cong drop_falsy_count drop_falsy_filter drop_falsy_text drop_falsy_notes)
next
  case False
  then show ?thesis
    by (simp add: addNotes_def drop_falsy_count)
qed

lemma deleteAiVideo_drop_falsy: "deleteAiVideo e x (drop_falsy a) st = deleteAiVideo e x a st"
proof (cases "identifierCount a = 1")
  case True
  then show ?thesis
    by (intro deleteAiVideo_cong drop_falsy_count drop_falsy_filter drop_falsy_text)
next
  case False
  then show ?thesis
    by (simp add: deleteAiVideo_def drop_falsy_count)
qed

lemma deleteVehicle_drop_falsy: "deleteVehicle e x (drop_falsy a) st = deleteVehicle e x a st"
proof (cases "truthy_str (vin a) \<or> truthy_str (stockNumber a)")
  case True
  then show ?thesis
    by (intro deleteVehicle_cong drop_falsy_truthy drop_falsy_dv_filter drop_falsy_dv_text)
next
  case False
  then show ?thesis
    by (simp add: deleteVehicle_def drop_falsy_truthy)
qed

lemma updateVehicles_drop_falsy: "updateVehicles e x (drop_falsy a) st = updateVehicles e x a st"
  by (intro updateVehicles_cong drop_falsy_updateData drop_falsy_target)

subsection \<open>The sample data\<close>

lemma configured_demo: "configured demo_env" "configured demo_env_r2"
  by (simp_all add: configured_def demo_env_def demo_env_r2_def truthy_str_def)

lemma r2_configured_demo: "\<not> r2_configured demo_env" "r2_configured demo_env_r2"
  by (simp_all add: r2_configured_def demo_env_def demo_env_r2_def truthy_str_def)

lemma quiet_simps:
  "now quiet = ''2025-01-01T00:00:00.000Z''" "select_error quiet = None" "write_error quiet = None"
  "r2_error quiet = None" "concurrent quiet = (\<lambda>rs. rs)"
  by (simp_all add: quiet_def)

lemma r2_down_simps:
  "now r2_down = ''2025-01-01T00:00:00.000Z''" "select_error r2_down = None" "write_error r2_down = None"
  "r2_error r2_down = Some ''timeout''" "concurrent r2_down = (\<lambda>rs. rs)"
  by (simp_all add: r2_down_def)

lemma racing_simps:
  "now racing = ''2025-01-01T00:00:00.000Z''" "select_error racing = None" "write_error racing = None"
  "r2_error racing = None" "concurrent racing = resync"
  by (simp_all add: racing_def)

lemma by_id_1:
  "identifierCount (no_args\<lparr>id' := Some 1\<rparr>) = 1"
  "identifier_filter (no_args\<lparr>id' := Some 1\<rparr>) = [Eq ''id'' (Num 1)]"
  by (simp_all add: identifierCount_def identifier_filter_def truthy_num_def truthy_str_def no_args_def)

lemma showroom_by_id:
  "filter (matching [Is_null ''deleted_at'', Eq ''id'' (Num 1)]) (vehicles showroom) =
     [car 1 ''X'' ''S1'' ''Ferrari'' Null]"
  by (simp add: showroom_def matching_def car_def)

lemma showroom_id1:
  "filter (matching [Eq ''id'' (Num 1)]) (vehicles showroom) = [car 1 ''X'' ''S1'' ''Ferrari'' Null]"
  by (simp add: showroom_def matching_def car_def)

lemma showroom_ids: "distinct (map (\<lambda>r. r ''id'') (vehicles showroom))"
  by (simp add: showroom_def car_def)

lemma showroom_hidden:
  "soft_deleted (vehicles showroom ! 1)"
  "vehicles showroom ! 1 = car 2 ''Y'' ''S2'' ''Porsche'' (Str ''2024-06-01T00:00:00.000Z'')"
  "1 < length (vehicles showroom)"
  by (simp_all add: showroom_def car_def soft_deleted_def)

lemma showroom_by_vin_Y:
  "filter (matching [Eq ''vin'' (Str ''Y'')]) (vehicles showroom) =
     [car 2 ''Y'' ''S2'' ''Porsche'' (Str ''2024-06-01T00:00:00.000Z'')]"
  by (simp add: showroom_def matching_def car_def)








lemma twins_by_vin:
  "filter (matching [Is_null ''deleted_at'', Eq ''vin'' (Str ''X'')]) (vehicles twins) =
     [car 1 ''X'' ''S1'' ''Ferrari'' Null, car 2 ''X'' ''S2'' ''Ferrari'' Null]"
  by (simp add: twins_def matching_def car_def)

lemma ferrari: "contains_ci ''ferrari'' ''Ferrari''" "\<not> contains_ci ''ferrari'' ''Lotus''"
  by code_simp+

lemma plain_ferrari: "no_wildcards ''ferrari''"
  by (simp add: no_wildcards_def)

lemma twins_by_make:
  "filter (matching [Is_null ''deleted_at'', Ilike ''make'' (wildcard ''ferrari'')]) (vehicles twins) =
     [car 1 ''X'' ''S1'' ''Ferrari'' Null, car 2 ''X'' ''S2'' ''Ferrari'' Null]"
  by (simp add: twins_def matching_def car_def ilike_contains plain_ferrari ferrari)

lemma showroom_f_rrari:
  "filter (matching [Is_null ''deleted_at'', Ilike ''make'' (wildcard ''f_rrari'')]) (vehicles showroom) =
     [car 1 ''X'' ''S1'' ''Ferrari'' Null]"
proof -
  have "ilike (wildcard ''f_rrari'') ''Ferrari''" "\<not> ilike (wildcard ''f_rrari'') ''Porsche''"
    by code_simp+
  then show ?thesis
    by (simp add: showroom_def matching_def car_def)
qed

lemma f_rrari_not_contained: "\<not> contains_ci ''f_rrari'' ''Ferrari''"
  by code_simp

section \<open>Claim C1: two or more identifiers\<close>

text \<open>
  As stated, C1 includes update-vehicles. That tool has no ambiguity check: called with an
  id and a VIN (and a price to write) it looks the row up by id and updates it.
\<close>

theorem C1_counterexample:
  "reply (updateVehicles demo_env quiet
            (no_args\<lparr>id' := Some 1, vin := Some ''X'', price := Some 5\<rparr>) showroom)
     \<noteq> AmbiguousIdentifier \<and>
   issued (updateVehicles demo_env quiet
            (no_args\<lparr>id' := Some 1, vin := Some ''X'', price := Some 5\<rparr>) showroom) =
     [Select [''id'', ''year'', ''make'', ''model'', ''vin'']
        [Is_null ''deleted_at'', Eq ''id'' (Num 1)],
      Update [(''updated_at'', Str ''2025-01-01T00:00:00.000Z''), (''price'', Num 5)]
        [In_list ''id'' [Num 1]] [''id'', ''year'', ''make'', ''model'', ''vin'']]"
proof -
  let ?a = "no_args\<lparr>id' := Some 1, vin := Some ''X'', price := Some 5\<rparr>"
  have u: "updateData_of t ?a = [(''updated_at'', Str t), (''price'', Num 5)]" for t
    by (simp add: updateData_of_def provided_def no_args_def)
  have n: "now quiet = ''2025-01-01T00:00:00.000Z''"
    by (simp add: quiet_def)
  have t: "target_filter ?a = Some [Eq ''id'' (Num 1)]"
    by (simp add: target_filter_def truthy_num_def)
  have i: "[Num 1] = map (\<lambda>r. r ''id'')
             (filter (matching (Is_null ''deleted_at'' # [Eq ''id'' (Num 1)])) (vehicles showroom))"
    by (simp add: showroom_by_id car_def)
  have "length (updateData_of (now quiet) ?a) \<noteq> 1" "select_error quiet = None" "[Num 1] \<noteq> []"
    by (simp_all add: u) (simp add: quiet_def)
  from updateVehicles_mutation(1) [OF configured_demo(1) this(1) t this(2) i this(3)]
    updateVehicles_never(1)
  show ?thesis by (simp add: u n)
qed

text \<open>
  Claim C1, as amended. With the store credentials configured, add-notes, delete-ai-video
  and delete-vehicle answer a call that carries two or more non-falsy identifiers (of the
  identifiers the tool supports) with the ambiguous-identifier error, and this before any
  request is sent: the result is \<open>refuse\<close>, whose list of requests is empty and whose
  store is the one given. update-vehicles never gives that error: it picks the id if there
  is one, else the VIN.
\<close>

theorem C1_ambiguous_identifier:
  assumes "configured e"
  shows "(2 \<le> identifierCount a \<longrightarrow> addNotes e x a st = refuse AmbiguousIdentifier st) \<and>
    (2 \<le> identifierCount a \<longrightarrow> deleteAiVideo e x a st = refuse AmbiguousIdentifier st) \<and>
    (truthy_str (vin a) \<and> truthy_str (stockNumber a) \<longrightarrow>
       deleteVehicle e x a st = refuse AmbiguousIdentifier st) \<and>
    reply (updateVehicles e x a st) \<noteq> AmbiguousIdentifier \<and>
    (truthy_num (id' a) \<longrightarrow> target_filter a = Some [Eq ''id'' (Num (the (id' a)))]) \<and>
    (\<not> truthy_num (id' a) \<and> truthy_str (vin a) \<longrightarrow>
       target_filter a = Some [Eq ''vin'' (Str (the (vin a)))])"
proof (intro conjI impI)
  show "addNotes e x a st = refuse AmbiguousIdentifier st" if "2 \<le> identifierCount a"
    using assms that by (simp add: addNotes_def)
  show "deleteAiVideo e x a st = refuse AmbiguousIdentifier st" if "2 \<le> identifierCount a"
    using assms that by (simp add: deleteAiVideo_def)
  show "deleteVehicle e x a st = refuse AmbiguousIdentifier st"
    if "truthy_str (vin a) \<and> truthy_str (stockNumber a)"
    using assms that by (simp add: deleteVehicle_def)
  show "reply (updateVehicles e x a st) \<noteq> AmbiguousIdentifier"
    by (rule updateVehicles_never)
  show "target_filter a = Some [Eq ''id'' (Num (the (id' a)))]" if "truthy_num (id' a)"
    using that by (simp add: target_filter_def)
  show "target_filter a = Some [Eq ''vin'' (Str (the (vin a)))]"
    if "\<not> truthy_num (id' a) \<and> truthy_str (vin a)"
    using that by (simp add: target_filter_def)
qed

theorem C1_witness:
  "addNotes demo_env quiet (no_args\<lparr>id' := Some 1, vin := Some ''X'', stockNumber := Some ''S1''\<rparr>)
     showroom = refuse AmbiguousIdentifier showroom \<and>
   deleteAiVideo demo_env quiet (no_args\<lparr>id' := Some 1, vin := Some ''X'', stockNumber := Some ''S1''\<rparr>)
     showroom = refuse AmbiguousIdentifier showroom \<and>
   deleteVehicle demo_env quiet (no_args\<lparr>id' := Some 1, vin := Some ''X'', stockNumber := Some ''S1''\<rparr>)
     showroom = refuse AmbiguousIdentifier showroom \<and>
   target_filter (no_args\<lparr>id' := Some 1, vin := Some ''X'', stockNumber := Some ''S1''\<rparr>) =
     Some [Eq ''id'' (Num 1)]"
  using C1_ambiguous_identifier [OF configured_demo(1),
      of "no_args\<lparr>id' := Some 1, vin := Some ''X'', stockNumber := Some ''S1''\<rparr>" quiet showroom]
  by (simp add: identifierCount_def truthy_num_def truthy_str_def)

section \<open>Claim C2: more than one match\<close>

text \<open>
  As stated, C2 includes update-vehicles. That tool has no check on the number of rows its
  lookup returns: called with a VIN that two visible rows share, it writes the price to
  both.
\<close>

theorem C2_counterexample:
  "reply (updateVehicles demo_env quiet (no_args\<lparr>vin := Some ''X'', price := Some 5\<rparr>) twins)
     \<noteq> MultipleMatches \<and>
   map (\<lambda>r. r ''price'') (vehicles twins) = [Null, Null] \<and>
   map (\<lambda>r. r ''price'')
     (vehicles (after (updateVehicles demo_env quiet (no_args\<lparr>vin := Some ''X'', price := Some 5\<rparr>)
        twins))) = [Num 5, Num 5]"
proof -
  let ?a = "no_args\<lparr>vin := Some ''X'', price := Some 5\<rparr>"
  have u: "updateData_of t ?a = [(''updated_at'', Str t), (''price'', Num 5)]" for t
    by (simp add: updateData_of_def provided_def no_args_def)
  have t: "target_filter ?a = Some [Eq ''vin'' (Str ''X'')]"
    by (simp add: target_filter_def truthy_num_def truthy_str_def no_args_def)
  have i: "[Num 1, Num 2] = map (\<lambda>r. r ''id'')
             (filter (matching (Is_null ''deleted_at'' # [Eq ''vin'' (Str ''X'')])) (vehicles twins))"
    by (simp add: twins_by_vin car_def)
  have "length (updateData_of (now quiet) ?a) \<noteq> 1" "[Num 1, Num 2] \<noteq> []"
    by (simp_all add: u)
  from updateVehicles_mutation(2) [OF configured_demo(1) this(1) t quiet_simps(2) i this(2)]
  have "vehicles (after (updateVehicles demo_env quiet ?a twins)) =
          map (\<lambda>r. if r ''id'' \<noteq> Null \<and> r ''id'' \<in> set [Num 1, Num 2]
                    then assign (updateData_of (now quiet) ?a) r else r) (vehicles twins)"
    by (simp add: quiet_simps)
  then show ?thesis
    using updateVehicles_never(2) [of demo_env quiet ?a twins]
    by (simp add: u twins_def car_def assign_def)
qed

text \<open>
  Claim C2, as amended. With the store credentials configured and the lookup answered
  without error, add-notes (notes supplied), delete-ai-video and delete-vehicle, called
  with exactly one non-falsy identifier, answer a lookup that returns more than one row
  with the multiple-matches error; the only request sent is the select, and the store is
  left as it was. update-vehicles never gives that error: when its lookup returns more
  than one row and the store accepts the write, it sends one update for the ids of all the
  rows returned, and every row with one of those ids gets the new values.
\<close>

theorem C2_multiple_matches:
  assumes "configured e" "select_error x = None"
  shows "(identifierCount a = 1 \<and> notes' a \<noteq> None \<and>
      1 < length (filter (matching (Is_null ''deleted_at'' # identifier_filter a)) (vehicles st)) \<longrightarrow>
        addNotes e x a st =
          \<lparr>reply = MultipleMatches,
           issued = [Select [''id'', ''year'', ''make'', ''model'', ''vin'', ''stock_number'', ''notes'']
                       (Is_null ''deleted_at'' # identifier_filter a)],
           after = st\<rparr>) \<and>
    (identifierCount a = 1 \<and>
      1 < length (filter (matching (Is_null ''deleted_at'' # identifier_filter a)) (vehicles st)) \<longrightarrow>
        deleteAiVideo e x a st =
          \<lparr>reply = MultipleMatches,
           issued = [Select [''id'', ''year'', ''make'', ''model'', ''vin'', ''stock_number'', ''ai_video'']
                       (Is_null ''deleted_at'' # identifier_filter a)],
           after = st\<rparr>) \<and>
    (truthy_str (vin a) \<noteq> truthy_str (stockNumber a) \<and>
      1 < length (filter (matching (deleteVehicle_filter a)) (vehicles st)) \<longrightarrow>
        deleteVehicle e x a st =
          \<lparr>reply = MultipleMatches,
           issued = [Select [''id'', ''year'', ''make'', ''model'', ''vin'', ''stock_number'']
                       (deleteVehicle_filter a)],
           after = st\<rparr>) \<and>
    reply (updateVehicles e x a st) \<noteq> MultipleMatches \<and>
    (length (updateData_of (now x) a) \<noteq> 1 \<and> target_filter a = Some fs \<and>
      1 < length (filter (matching (Is_null ''deleted_at'' # fs)) (vehicles st)) \<and>
      write_error x = None \<longrightarrow>
        issued (updateVehicles e x a st) =
          [Select [''id'', ''year'', ''make'', ''model'', ''vin''] (Is_null ''deleted_at'' # fs),
           Update (updateData_of (now x) a)
             [In_list ''id'' (map (\<lambda>r. r ''id'')
                (filter (matching (Is_null ''deleted_at'' # fs)) (vehicles st)))]
             [''id'', ''year'', ''make'', ''model'', ''vin'']] \<and>
        vehicles (after (updateVehicles e x a st)) =
          map (\<lambda>r. if r ''id'' \<noteq> Null \<and>
                      r ''id'' \<in> set (map (\<lambda>r. r ''id'')
                        (filter (matching (Is_null ''deleted_at'' # fs)) (vehicles st)))
                    then assign (updateData_of (now x) a) r else r)
            (concurrent x (vehicles st)))"
proof -
  have "length (updateData_of (now x) a) \<noteq> 1 \<and> target_filter a = Some fs \<and>
      1 < length (filter (matching (Is_null ''deleted_at'' # fs)) (vehicles st)) \<and>
      write_error x = None \<longrightarrow>
        issued (updateVehicles e x a st) =
          [Select [''id'', ''year'', ''make'', ''model'', ''vin''] (Is_null ''deleted_at'' # fs),
           Update (updateData_of (now x) a)
             [In_list ''id'' (map (\<lambda>r. r ''id'')
                (filter (matching (Is_null ''deleted_at'' # fs)) (vehicles st)))]
             [''id'', ''year'', ''make'', ''model'', ''vin'']] \<and>
        vehicles (after (updateVehicles e x a st)) =
          map (\<lambda>r. if r ''id'' \<noteq> Null \<and>
                      r ''id'' \<in> set (map (\<lambda>r. r ''id'')
                        (filter (matching (Is_null ''deleted_at'' # fs)) (vehicles st)))
                    then assign (updateData_of (now x) a) r else r)
            (concurrent x (vehicles st))"
  proof (intro impI, elim conjE)
    assume h: "length (updateData_of (now x) a) \<noteq> 1" "target_filter a = Some fs"
      "1 < length (filter (matching (Is_null ''deleted_at'' # fs)) (vehicles st))"
      "write_error x = None"
    from h(3) have "map (\<lambda>r. r ''id'')
        (filter (matching (Is_null ''deleted_at'' # fs)) (vehicles st)) \<noteq> []"
      by auto
    from updateVehicles_mutation(1,2) [OF assms(1) h(1,2) assms(2) refl this] h(4)
    show "issued (updateVehicles e x a st) =
          [Select [''id'', ''year'', ''make'', ''model'', ''vin''] (Is_null ''deleted_at'' # fs),
           Update (updateData_of (now x) a)
             [In_list ''id'' (map (\<lambda>r. r ''id'')
                (filter (matching (Is_null ''deleted_at'' # fs)) (vehicles st)))]
             [''id'', ''year'', ''make'', ''model'', ''vin'']] \<and>
        vehicles (after (updateVehicles e x a st)) =
          map (\<lambda>r. if r ''id'' \<noteq> Null \<and>
                      r ''id'' \<in> set (map (\<lambda>r. r ''id'')
                        (filter (matching (Is_null ''deleted_at'' # fs)) (vehicles st)))
                    then assign (updateData_of (now x) a) r else r)
            (concurrent x (vehicles st))"
      by simp
  qed
  with assms addNotes_multiple [of e a x st] deleteAiVideo_multiple [of e a x st]
    deleteVehicle_multiple [of e a x st] updateVehicles_never(2) [of e x a st]
  show ?thesis
    by blast
qed

theorem C2_witness:
  "reply (addNotes demo_env quiet (no_args\<lparr>vin := Some ''X'', notes' := Some (Some ''sold'')\<rparr>) twins)
     = MultipleMatches \<and>
   after (addNotes demo_env quiet (no_args\<lparr>vin := Some ''X'', notes' := Some (Some ''sold'')\<rparr>) twins)
     = twins \<and>
   reply (deleteAiVideo demo_env quiet (no_args\<lparr>vin := Some ''X'', notes' := Some (Some ''sold'')\<rparr>) twins)
     = MultipleMatches \<and>
   after (deleteAiVideo demo_env quiet (no_args\<lparr>vin := Some ''X'', notes' := Some (Some ''sold'')\<rparr>) twins)
     = twins \<and>
   reply (deleteVehicle demo_env quiet (no_args\<lparr>vin := Some ''X'', notes' := Some (Some ''sold'')\<rparr>) twins)
     = MultipleMatches \<and>
   after (deleteVehicle demo_env quiet (no_args\<lparr>vin := Some ''X'', notes' := Some (Some ''sold'')\<rparr>) twins)
     = twins \<and>
   issued (updateVehicles demo_env quiet (no_args\<lparr>vin := Some ''X'', price := Some 5\<rparr>) twins) =
     [Select [''id'', ''year'', ''make'', ''model'', ''vin'']
        [Is_null ''deleted_at'', Eq ''vin'' (Str ''X'')],
      Update [(''updated_at'', Str ''2025-01-01T00:00:00.000Z''), (''price'', Num 5)]
        [In_list ''id'' [Num 1, Num 2]] [''id'', ''year'', ''make'', ''model'', ''vin'']] \<and>
   map (\<lambda>r. (r ''price'', r ''updated_at''))
     (vehicles (after (updateVehicles demo_env quiet (no_args\<lparr>vin := Some ''X'', price := Some 5\<rparr>)
        twins))) =
     [(Num 5, Str ''2025-01-01T00:00:00.000Z''), (Num 5, Str ''2025-01-01T00:00:00.000Z'')]"
proof -
  let ?a = "no_args\<lparr>vin := Some ''X'', notes' := Some (Some ''sold'')\<rparr>"
  let ?u = "no_args\<lparr>vin := Some ''X'', price := Some 5\<rparr>"
  have u: "updateData_of t ?u = [(''updated_at'', Str t), (''price'', Num 5)]" for t
    by (simp add: updateData_of_def provided_def no_args_def)
  have t: "target_filter ?u = Some [Eq ''vin'' (Str ''X'')]"
    by (simp add: target_filter_def truthy_num_def truthy_str_def no_args_def)
  have l: "length (updateData_of (now quiet) ?u) \<noteq> 1"
    "1 < length (filter (matching (Is_null ''deleted_at'' # [Eq ''vin'' (Str ''X'')])) (vehicles twins))"
    by (simp_all add: u twins_by_vin)
  from C2_multiple_matches [OF configured_demo(1) quiet_simps(2), where a = ?u and st = twins
      and fs = "[Eq ''vin'' (Str ''X'')]"] l t quiet_simps(3)
  have "issued (updateVehicles demo_env quiet ?u twins) =
          [Select [''id'', ''year'', ''make'', ''model'', ''vin'']
             (Is_null ''deleted_at'' # [Eq ''vin'' (Str ''X'')]),
           Update (updateData_of (now quiet) ?u)
             [In_list ''id'' (map (\<lambda>r. r ''id'')
                (filter (matching (Is_null ''deleted_at'' # [Eq ''vin'' (Str ''X'')])) (vehicles twins)))]
             [''id'', ''year'', ''make'', ''model'', ''vin'']]"
    and "vehicles (after (updateVehicles demo_env quiet ?u twins)) =
          map (\<lambda>r. if r ''id'' \<noteq> Null \<and>
                      r ''id'' \<in> set (map (\<lambda>r. r ''id'')
                        (filter (matching (Is_null ''deleted_at'' # [Eq ''vin'' (Str ''X'')])) (vehicles twins)))
                    then assign (updateData_of (now quiet) ?u) r else r)
            (concurrent quiet (vehicles twins))"
    by blast+
  then have w1: "issued (updateVehicles demo_env quiet ?u twins) =
     [Select [''id'', ''year'', ''make'', ''model'', ''vin'']
        [Is_null ''deleted_at'', Eq ''vin'' (Str ''X'')],
      Update [(''updated_at'', Str ''2025-01-01T00:00:00.000Z''), (''price'', Num 5)]
        [In_list ''id'' [Num 1, Num 2]] [''id'', ''year'', ''make'', ''model'', ''vin'']]"
    and "vehicles (after (updateVehicles demo_env quiet ?u twins)) =
          map (\<lambda>r. if r ''id'' \<noteq> Null \<and> r ''id'' \<in> set [Num 1, Num 2]
                    then assign (updateData_of (now quiet) ?u) r else r) (vehicles twins)"
    by (simp_all add: u twins_by_vin quiet_simps car_def)
  then have w2: "map (\<lambda>r. (r ''price'', r ''updated_at''))
       (vehicles (after (updateVehicles demo_env quiet ?u twins))) =
     [(Num 5, Str ''2025-01-01T00:00:00.000Z''), (Num 5, Str ''2025-01-01T00:00:00.000Z'')]"
    by (simp add: u twins_def car_def assign_def quiet_simps)
  note w = w1 w2
  have f: "identifier_filter ?a = [Eq ''vin'' (Str ''X'')]"
     "deleteVehicle_filter ?a = [Eq ''vin'' (Str ''X'')]"
    by (simp_all add: identifier_filter_def deleteVehicle_filter_def truthy_num_def truthy_str_def no_args_def)
  have n: "identifierCount ?a = 1" "notes' ?a \<noteq> None"
    "truthy_str (vin ?a) \<noteq> truthy_str (stockNumber ?a)"
    by (simp_all add: identifierCount_def truthy_num_def truthy_str_def no_args_def)
  have m: "1 < length (filter (matching (Is_null ''deleted_at'' # identifier_filter ?a)) (vehicles twins))"
    by (simp add: f twins_by_vin)
  have m': "1 < length (filter (matching (deleteVehicle_filter ?a)) (vehicles twins))"
    by (simp add: f twins_def matching_def car_def)
  from C2_multiple_matches [OF configured_demo(1) quiet_simps(2), where a = ?a and st = twins
      and fs = "[]"] n m m'
  have "addNotes demo_env quiet ?a twins =
          \<lparr>reply = MultipleMatches,
           issued = [Select [''id'', ''year'', ''make'', ''model'', ''vin'', ''stock_number'', ''notes'']
                       (Is_null ''deleted_at'' # identifier_filter ?a)],
           after = twins\<rparr>"
    "deleteAiVideo demo_env quiet ?a twins =
          \<lparr>reply = MultipleMatches,
           issued = [Select [''id'', ''year'', ''make'', ''model'', ''vin'', ''stock_number'', ''ai_video'']
                       (Is_null ''deleted_at'' # identifier_filter ?a)],
           after = twins\<rparr>"
    "deleteVehicle demo_env quiet ?a twins =
          \<lparr>reply = MultipleMatches,
           issued = [Select [''id'', ''year'', ''make'', ''model'', ''vin'', ''stock_number'']
                       (deleteVehicle_filter ?a)],
           after = twins\<rparr>"
    by blast+
  with w show ?thesis
    by simp
qed

section \<open>Claim C3: soft-deleted rows\<close>




section \<open>Claim C4: the rows update-vehicles writes\<close>

text \<open>
  Claim C4. Whenever update-vehicles reaches its write (credentials configured, a field to
  update, a target, a lookup answered with at least one row), the update it sends is
  filtered by membership of \<^verbatim>\<open>id\<close> in the ids the lookup returned, and by nothing else; the
  rows written are the rows of the table as it is at the time of the write, whatever other
  writers did to it since the lookup, whose id is one of those ids.
\<close>

theorem C4_update_by_captured_ids:
  assumes "configured e" "length (updateData_of (now x) a) \<noteq> 1" "target_filter a = Some fs"
    and "select_error x = None"
    and "ids = map (\<lambda>r. r ''id'') (filter (matching (Is_null ''deleted_at'' # fs)) (vehicles st))"
    and "ids \<noteq> []"
  shows "issued (updateVehicles e x a st) =
           [Select [''id'', ''year'', ''make'', ''model'', ''vin''] (Is_null ''deleted_at'' # fs),
            Update (updateData_of (now x) a) [In_list ''id'' ids]
              [''id'', ''year'', ''make'', ''model'', ''vin'']] \<and>
         vehicles (after (updateVehicles e x a st)) =
           (if write_error x = None
            then map (\<lambda>r. if r ''id'' \<noteq> Null \<and> r ''id'' \<in> set ids
                           then assign (updateData_of (now x) a) r else r)
                   (concurrent x (vehicles st))
            else concurrent x (vehicles st))"
  using updateVehicles_mutation(1,2) [OF assms] by (rule conjI)

theorem C4_witness:
  "map (\<lambda>r. (r ''make'', r ''price''))
     (vehicles (after (updateVehicles demo_env racing
        (no_args\<lparr>make' := Some ''ferrari'', price := Some 5\<rparr>) twins))) =
     [(Str ''Ferrari'', Num 5), (Str ''Lotus'', Num 5)] \<and>
   map (\<lambda>r. r ''make'') (concurrent racing (vehicles twins)) = [Str ''Ferrari'', Str ''Lotus'']"
proof -
  let ?a = "no_args\<lparr>make' := Some ''ferrari'', price := Some 5\<rparr>"
  have u: "updateData_of t ?a = [(''updated_at'', Str t), (''price'', Num 5)]" for t
    by (simp add: updateData_of_def provided_def no_args_def)
  have t: "target_filter ?a = Some [Ilike ''make'' (wildcard ''ferrari'')]"
    by (simp add: target_filter_def truthy_num_def truthy_str_def no_args_def)
  have i: "[Num 1, Num 2] = map (\<lambda>r. r ''id'')
             (filter (matching (Is_null ''deleted_at'' # [Ilike ''make'' (wildcard ''ferrari'')]))
               (vehicles twins))"
    by (simp add: twins_by_make car_def)
  have "length (updateData_of (now racing) ?a) \<noteq> 1" "[Num 1, Num 2] \<noteq> []"
    by (simp_all add: u)
  from C4_update_by_captured_ids [OF configured_demo(1) this(1) t racing_simps(2) i this(2)]
  have "vehicles (after (updateVehicles demo_env racing ?a twins)) =
          map (\<lambda>r. if r ''id'' \<noteq> Null \<and> r ''id'' \<in> set [Num 1, Num 2]
                    then assign (updateData_of (now racing) ?a) r else r) (resync (vehicles twins))"
    by (simp add: racing_simps)
  then show ?thesis
    by (simp add: u twins_def car_def assign_def resync_def racing_simps)
qed

section \<open>Claim C5: nothing to update\<close>

text \<open>
  Claim C5. With the store credentials configured, an update-vehicles call that supplies
  none of the twelve updatable fields (so that the update object holds \<^verbatim>\<open>updated_at\<close>
  alone) is answered with the no-fields error before any request is sent; and that error
  is given for no other call.
\<close>

theorem C5_no_fields_to_update:
  assumes "configured e"
  shows "(price a = None \<and> customPrice a = None \<and> colour a = None \<and> interiorColor a = None \<and>
      description a = None \<and> aiDescription a = None \<and> odometer a = None \<and> newUsed a = None \<and>
      certified a = None \<and> dealerName a = None \<and> tags a = None \<and> inventoryDate a = None
     \<longrightarrow> updateVehicles e x a st = refuse NoFieldsToUpdate st) \<and>
    (reply (updateVehicles e x a st) = NoFieldsToUpdate \<longrightarrow>
       price a = None \<and> customPrice a = None \<and> colour a = None \<and> interiorColor a = None \<and>
       description a = None \<and> aiDescription a = None \<and> odometer a = None \<and> newUsed a = None \<and>
       certified a = None \<and> dealerName a = None \<and> tags a = None \<and> inventoryDate a = None)"
proof (rule conjI; rule impI)
  assume "price a = None \<and> customPrice a = None \<and> colour a = None \<and> interiorColor a = None \<and>
      description a = None \<and> aiDescription a = None \<and> odometer a = None \<and> newUsed a = None \<and>
      certified a = None \<and> dealerName a = None \<and> tags a = None \<and> inventoryDate a = None"
  then have "length (updateData_of (now x) a) = 1"
    by (simp only: only_updated_at)
  with assms show "updateVehicles e x a st = refuse NoFieldsToUpdate st"
    by (simp add: updateVehicles_def Let_def)
next
  assume "reply (updateVehicles e x a st) = NoFieldsToUpdate"
  then have "length (updateData_of (now x) a) = 1"
    by (rule no_fields_reply)
  then show "price a = None \<and> customPrice a = None \<and> colour a = None \<and> interiorColor a = None \<and>
       description a = None \<and> aiDescription a = None \<and> odometer a = None \<and> newUsed a = None \<and>
       certified a = None \<and> dealerName a = None \<and> tags a = None \<and> inventoryDate a = None"
    by (simp only: only_updated_at)
qed

theorem C5_witness:
  "updateVehicles demo_env quiet (no_args\<lparr>vin := Some ''X''\<rparr>) showroom =
     refuse NoFieldsToUpdate showroom"
  using C5_no_fields_to_update [OF configured_demo(1), of "no_args\<lparr>vin := Some ''X''\<rparr>" quiet showroom]
  by (simp add: no_args_def)

section \<open>Claim C6: cleared and unset fields\<close>

text \<open>
  As stated, C6 speaks of every update operation. update-vehicles writes a supplied empty
  string as the empty string: called with an empty \<^verbatim>\<open>colour\<close> it assigns \<^verbatim>\<open>""\<close>, not NULL.
\<close>

theorem C6_counterexample:
  "issued (updateVehicles demo_env quiet (no_args\<lparr>id' := Some 1, colour := Some ''''\<rparr>) showroom) =
     [Select [''id'', ''year'', ''make'', ''model'', ''vin'']
        [Is_null ''deleted_at'', Eq ''id'' (Num 1)],
      Update [(''updated_at'', Str ''2025-01-01T00:00:00.000Z''), (''colour'', Str '''')]
        [In_list ''id'' [Num 1]] [''id'', ''year'', ''make'', ''model'', ''vin'']] \<and>
   map (\<lambda>r. r ''colour'')
     (vehicles (after (updateVehicles demo_env quiet (no_args\<lparr>id' := Some 1, colour := Some ''''\<rparr>)
        showroom))) = [Str '''', Null]"
proof -
  let ?a = "no_args\<lparr>id' := Some 1, colour := Some ''''\<rparr>"
  have u: "updateData_of t ?a = [(''updated_at'', Str t), (''colour'', Str '''')]" for t
    by (simp add: updateData_of_def provided_def no_args_def)
  have t: "target_filter ?a = Some [Eq ''id'' (Num 1)]"
    by (simp add: target_filter_def truthy_num_def)
  have i: "[Num 1] = map (\<lambda>r. r ''id'')
             (filter (matching (Is_null ''deleted_at'' # [Eq ''id'' (Num 1)])) (vehicles showroom))"
    by (simp add: showroom_by_id car_def)
  have "length (updateData_of (now quiet) ?a) \<noteq> 1" "[Num 1] \<noteq> []"
    by (simp_all add: u)
  from updateVehicles_mutation(1,2) [OF configured_demo(1) this(1) t quiet_simps(2) i this(2)]
  show ?thesis
    by (simp add: u quiet_simps showroom_def car_def assign_def)
qed

text \<open>
  Claim C6, as amended. add-notes called with notes \<^verbatim>\<open>null\<close> or \<^verbatim>\<open>""\<close> assigns NULL to the
  \<^verbatim>\<open>notes\<close> column of the row it found, and the two calls have the same outcome. The update
  object of update-vehicles is the one every update it sends carries; it holds
  \<^verbatim>\<open>updated_at\<close> and, of the twelve updatable columns, exactly those whose field was
  supplied, each with the value supplied (an empty string stays an empty string); a field
  left unset is not in it.
\<close>

theorem C6_cleared_and_unset_fields:
  "(configured e \<and> identifierCount a = 1 \<and> select_error x = None \<and>
    filter (matching (Is_null ''deleted_at'' # identifier_filter a)) (vehicles st) = [r] \<and>
    (notes' a = Some None \<or> notes' a = Some (Some [])) \<longrightarrow>
      issued (addNotes e x a st) =
        [Select [''id'', ''year'', ''make'', ''model'', ''vin'', ''stock_number'', ''notes'']
           (Is_null ''deleted_at'' # identifier_filter a),
         Update [(''notes'', Null), (''updated_at'', Str (now x))]
           [Eq ''id'' (r ''id'')] [''id'', ''year'', ''make'', ''model'', ''vin'', ''notes'']]) \<and>
   addNotes e x (a\<lparr>notes' := Some (Some [])\<rparr>) st = addNotes e x (a\<lparr>notes' := Some None\<rparr>) st \<and>
   (Update kvs cs cols \<in> set (issued (updateVehicles e x a st)) \<longrightarrow> kvs = updateData_of (now x) a) \<and>
   set (map fst (updateData_of t a)) \<subseteq>
     {''updated_at'', ''price'', ''custom_price'', ''colour'', ''interior_color'', ''description'',
      ''ai_description'', ''odometer'', ''new_used'', ''certified'', ''dealer_name'', ''tags'',
      ''inventory_date''} \<and>
   map_of (updateData_of t a) ''updated_at'' = Some (Str t) \<and>
   map_of (updateData_of t a) ''price'' = map_option Num (price a) \<and>
   map_of (updateData_of t a) ''custom_price'' = map_option Num (customPrice a) \<and>
   map_of (updateData_of t a) ''colour'' = map_option Str (colour a) \<and>
   map_of (updateData_of t a) ''interior_color'' = map_option Str (interiorColor a) \<and>
   map_of (updateData_of t a) ''description'' = map_option Str (description a) \<and>
   map_of (updateData_of t a) ''ai_description'' = map_option Str (aiDescription a) \<and>
   map_of (updateData_of t a) ''odometer'' = map_option Num (odometer a) \<and>
   map_of (updateData_of t a) ''new_used'' = map_option Str (newUsed a) \<and>
   map_of (updateData_of t a) ''certified'' = map_option Str (certified a) \<and>
   map_of (updateData_of t a) ''dealer_name'' = map_option Str (dealerName a) \<and>
   map_of (updateData_of t a) ''tags'' = map_option Str (tags a) \<and>
   map_of (updateData_of t a) ''inventory_date'' = map_option Str (inventoryDate a)"
proof (intro conjI)
  show "configured e \<and> identifierCount a = 1 \<and> select_error x = None \<and>
    filter (matching (Is_null ''deleted_at'' # identifier_filter a)) (vehicles st) = [r] \<and>
    (notes' a = Some None \<or> notes' a = Some (Some [])) \<longrightarrow>
      issued (addNotes e x a st) =
        [Select [''id'', ''year'', ''make'', ''model'', ''vin'', ''stock_number'', ''notes'']
           (Is_null ''deleted_at'' # identifier_filter a),
         Update [(''notes'', Null), (''updated_at'', Str (now x))]
           [Eq ''id'' (r ''id'')] [''id'', ''year'', ''make'', ''model'', ''vin'', ''notes'']]"
    using addNotes_proceeds [of e a None x st r] addNotes_proceeds [of e a "Some []" x st r]
    by auto
  show "addNotes e x (a\<lparr>notes' := Some (Some [])\<rparr>) st = addNotes e x (a\<lparr>notes' := Some None\<rparr>) st"
    by (rule addNotes_clear_same)
  show "Update kvs cs cols \<in> set (issued (updateVehicles e x a st)) \<longrightarrow> kvs = updateData_of (now x) a"
    using updateVehicles_updates [of x a e st] by (auto simp: list_all_iff)
  show "set (map fst (updateData_of t a)) \<subseteq>
     {''updated_at'', ''price'', ''custom_price'', ''colour'', ''interior_color'', ''description'',
      ''ai_description'', ''odometer'', ''new_used'', ''certified'', ''dealer_name'', ''tags'',
      ''inventory_date''}"
    by (rule assigned_columns)
qed (rule assigned)+

theorem C6_witness:
  "issued (addNotes demo_env quiet (no_args\<lparr>id' := Some 1, notes' := Some (Some '''')\<rparr>) showroom) =
     [Select [''id'', ''year'', ''make'', ''model'', ''vin'', ''stock_number'', ''notes'']
        [Is_null ''deleted_at'', Eq ''id'' (Num 1)],
      Update [(''notes'', Null), (''updated_at'', Str ''2025-01-01T00:00:00.000Z'')]
        [Eq ''id'' (Num 1)] [''id'', ''year'', ''make'', ''model'', ''vin'', ''notes'']] \<and>
   map_of (updateData_of ''t'' (no_args\<lparr>id' := Some 1, notes' := Some (Some '''')\<rparr>)) ''colour'' = None"
proof -
  let ?a = "no_args\<lparr>id' := Some 1, notes' := Some (Some '''')\<rparr>"
  have f: "identifier_filter ?a = [Eq ''id'' (Num 1)]" "identifierCount ?a = 1"
    "notes' ?a = Some None \<or> notes' ?a = Some (Some [])"
    by (simp_all add: identifier_filter_def identifierCount_def truthy_num_def truthy_str_def no_args_def)
  have r: "filter (matching (Is_null ''deleted_at'' # identifier_filter ?a)) (vehicles showroom) =
             [car 1 ''X'' ''S1'' ''Ferrari'' Null]"
    by (simp add: f showroom_by_id)
  have c: "colour ?a = None"
    by (simp add: no_args_def)
  from C6_cleared_and_unset_fields [of demo_env ?a quiet showroom "car 1 ''X'' ''S1'' ''Ferrari'' Null"
      "[]" "[]" "[]" "''t''"]
    configured_demo(1) quiet_simps(2) f(2,3) r
  have "issued (addNotes demo_env quiet ?a showroom) =
        [Select [''id'', ''year'', ''make'', ''model'', ''vin'', ''stock_number'', ''notes'']
           (Is_null ''deleted_at'' # identifier_filter ?a),
         Update [(''notes'', Null), (''updated_at'', Str (now quiet))]
           [Eq ''id'' (car 1 ''X'' ''S1'' ''Ferrari'' Null ''id'')]
           [''id'', ''year'', ''make'', ''model'', ''vin'', ''notes'']]"
    and "map_of (updateData_of ''t'' ?a) ''colour'' = map_option Str (colour ?a)"
    by blast+
  then show ?thesis
    by (simp add: f(1) c quiet_simps car_def)
qed

section \<open>Claim C7: text filters of get-vehicles\<close>

text \<open>
  As stated, C7 says a text filter matches by substring containment whatever its value.
  The value goes into the pattern unescaped, so its \<^verbatim>\<open>_\<close> and \<^verbatim>\<open>%\<close> are wildcards:
  \<^verbatim>\<open>make = "f_rrari"\<close> returns the row whose make is \<^verbatim>\<open>Ferrari\<close>, which does not contain
  \<^verbatim>\<open>f_rrari\<close> in any letter case.
\<close>

theorem C7_counterexample:
  "reply (getVehicles demo_env quiet (no_args\<lparr>make' := Some ''f_rrari''\<rparr>) showroom) =
     Found [car 1 ''X'' ''S1'' ''Ferrari'' Null] \<and>
   car 1 ''X'' ''S1'' ''Ferrari'' Null ''make'' = Str ''Ferrari'' \<and>
   \<not> contains_ci ''f_rrari'' ''Ferrari''"
proof -
  have "vehicle_filters (no_args\<lparr>make' := Some ''f_rrari''\<rparr>) = [Ilike ''make'' (wildcard ''f_rrari'')]"
    by (simp add: vehicle_filters_def text_filter_def truthy_str_def truthy_num_def no_args_def)
  then show ?thesis
    using f_rrari_not_contained
    by (simp add: getVehicles_def configured_demo quiet_simps run_select_def showroom_f_rrari
          map_project_all car_def)
qed

text \<open>
  Claim C7, as amended. For each of the eleven descriptive text filters of get-vehicles,
  supplied with a non-empty value in which no character is a pattern character (\<^verbatim>\<open>%\<close>,
  \<^verbatim>\<open>_\<close>, backslash, \<^verbatim>\<open>*\<close>): the query carries \<^verbatim>\<open>ilike\<close> on the filter's column with the
  value wrapped in \<^verbatim>\<open>%\<close>; a row satisfies that filter exactly when the column holds a
  text that contains the value, letter case ignored; every row returned does; and every
  visible row that satisfies all the filters of the call is returned.
\<close>

theorem C7_text_filters:
  assumes "(field, column) \<in> set descriptive_filters" "field a = Some v" "v \<noteq> []"
    and "no_wildcards v"
  shows "Ilike column (wildcard v) \<in> set (vehicle_filters a) \<and>
    sat (Ilike column (wildcard v)) r = (\<exists>s. r column = Str s \<and> contains_ci v s) \<and>
    (reply (getVehicles e x a st) = Found data \<longrightarrow>
       (\<forall>q\<in>set data. \<exists>s. q column = Str s \<and> contains_ci v s)) \<and>
    (configured e \<and> select_error x = None \<and> r \<in> set (vehicles st) \<and> \<not> soft_deleted r \<and>
     matching (vehicle_filters a) r \<longrightarrow>
       (\<exists>rows. reply (getVehicles e x a st) = Found rows \<and> r \<in> set rows))"
proof (intro conjI impI)
  show b: "Ilike column (wildcard v) \<in> set (vehicle_filters a)"
    by (rule descriptive_filter_built [OF assms(1-3)])
  show "sat (Ilike column (wildcard v)) r = (\<exists>s. r column = Str s \<and> contains_ci v s)"
    by (rule sat_ilike_contains [OF assms(4)])
  show "\<forall>q\<in>set data. \<exists>s. q column = Str s \<and> contains_ci v s"
    if "reply (getVehicles e x a st) = Found data"
  proof
    fix q assume "q \<in> set data"
    with getVehicles_found [OF that] have "matching (vehicle_filters a) q"
      by (simp add: matching_def)
    with b have "sat (Ilike column (wildcard v)) q"
      unfolding matching_def list_all_iff by blast
    then show "\<exists>s. q column = Str s \<and> contains_ci v s"
      unfolding sat_ilike_contains [OF assms(4)] .
  qed
  show "\<exists>rows. reply (getVehicles e x a st) = Found rows \<and> r \<in> set rows"
    if "configured e \<and> select_error x = None \<and> r \<in> set (vehicles st) \<and> \<not> soft_deleted r \<and>
        matching (vehicle_filters a) r"
    using that by (intro getVehicles_returns) simp_all
qed

theorem C7_witness:
  "Ilike ''make'' (wildcard ''ferrari'') \<in> set (vehicle_filters (no_args\<lparr>make' := Some ''ferrari''\<rparr>)) \<and>
   sat (Ilike ''make'' (wildcard ''ferrari'')) (car 1 ''X'' ''S1'' ''Ferrari'' Null) \<and>
   (\<exists>rows. reply (getVehicles demo_env quiet (no_args\<lparr>make' := Some ''ferrari''\<rparr>) showroom) = Found rows
      \<and> car 1 ''X'' ''S1'' ''Ferrari'' Null \<in> set rows)"
proof -
  let ?a = "no_args\<lparr>make' := Some ''ferrari''\<rparr>"
  let ?r = "car 1 ''X'' ''S1'' ''Ferrari'' Null"
  have h: "(make', ''make'') \<in> set descriptive_filters" "make' ?a = Some ''ferrari''" "''ferrari'' \<noteq> []"
    by (simp_all add: descriptive_filters_def)
  note c7 = C7_text_filters [OF h plain_ferrari, of ?r demo_env quiet showroom "[]"]
  have s: "sat (Ilike ''make'' (wildcard ''ferrari'')) ?r"
    using c7 ferrari(1) by (simp add: car_def)
  have f: "vehicle_filters ?a = [Ilike ''make'' (wildcard ''ferrari'')]"
    by (simp add: vehicle_filters_def text_filter_def truthy_str_def truthy_num_def no_args_def)
  have "?r \<in> set (vehicles showroom)" "\<not> soft_deleted ?r" "matching (vehicle_filters ?a) ?r"
    using s by (simp_all add: showroom_def soft_deleted_def car_def f matching_def)
  with c7 configured_demo(1) quiet_simps(2) s show ?thesis
    by blast
qed

section \<open>Claim C8: delete-ai-video twice\<close>

text \<open>
  Claim C8. When a call of delete-ai-video has succeeded (no other writer in between), a
  second call with the same arguments on the store the first one left, its lookup answered
  without error, replies that the vehicle has no AI video to delete; the row it reports
  has a NULL \<^verbatim>\<open>ai_video\<close>, the only request it sends is the select, so neither the object
  deletion nor the update, and it leaves the store as it found it.
\<close>

theorem C8_second_call_short_circuits:
  assumes first: "reply (deleteAiVideo e x a st) = AiVideoDeleted v u url rep"
    and quiet: "concurrent x = (\<lambda>rs. rs)"
    and ok: "select_error x' = None"
  shows "\<exists>w. w ''ai_video'' = Null \<and>
           deleteAiVideo e x' a (after (deleteAiVideo e x a st)) =
             \<lparr>reply = NoAiVideo w,
              issued = [Select [''id'', ''year'', ''make'', ''model'', ''vin'', ''stock_number'', ''ai_video'']
                          (Is_null ''deleted_at'' # identifier_filter a)],
              after = after (deleteAiVideo e x a st)\<rparr>"
proof -
  let ?q = "Is_null ''deleted_at'' # identifier_filter a"
  let ?kvs = "[(''ai_video'', Null), (''updated_at'', Str (now x))]"
  from deleteAiVideo_success_inv [OF first] quiet obtain r r' where
    c: "configured e" and n: "identifierCount a = 1" and s: "select_error x = None"
    and w: "write_error x = None"
    and r: "filter (matching ?q) (vehicles st) = [r]"
    and t: "truthy (r ''ai_video'')" "truthy (r ''stock_number'')"
    and r': "filter (matching [Eq ''id'' (r ''id'')]) (vehicles st) = [r']"
    by auto
  have q': "filter (matching [Eq ''id'' (r ''id'')]) (concurrent x (vehicles st)) = [r']"
    using r' quiet by simp
  have after: "vehicles (after (deleteAiVideo e x a st)) = write_rows ?kvs [Eq ''id'' (r ''id'')] (vehicles st)"
    using deleteAiVideo_succeeds(2) [OF c n s r t w q'] quiet by simp
  have "r' \<in> set (filter (matching [Eq ''id'' (r ''id'')]) (vehicles st))"
    using r' by simp
  then have "r ''id'' \<noteq> Null"
    by (auto simp: matching_def)
  then have self: "matching [Eq ''id'' (r ''id'')] r"
    by (simp add: matching_def)
  have "filter (matching ?q) (vehicles (after (deleteAiVideo e x a st))) = [assign ?kvs r]"
    unfolding after using filter_write_rows [of "matching ?q" ?kvs, OF lookup_ignores_video] r self
    by simp
  moreover have "\<not> truthy (assign ?kvs r ''ai_video'')"
    by (simp add: assign_def truthy_def)
  moreover have "project [''id'', ''year'', ''make'', ''model'', ''vin'', ''stock_number'', ''ai_video'']
                   (assign ?kvs r) ''ai_video'' = Null"
    by (simp add: project_col assign_def)
  ultimately show ?thesis
    using c n ok
    by (simp add: deleteAiVideo_def run_select_one Let_def project_col)
qed

theorem C8_witness:
  "reply (deleteAiVideo demo_env_r2 quiet (no_args\<lparr>id' := Some 1\<rparr>) showroom) =
     AiVideoDeleted
       (project [''id'', ''year'', ''make'', ''model'', ''vin'', ''stock_number'', ''ai_video'']
          (car 1 ''X'' ''S1'' ''Ferrari'' Null))
       (project [''id'', ''year'', ''make'', ''model'', ''vin'', ''ai_video'']
          (assign [(''ai_video'', Null), (''updated_at'', Str ''2025-01-01T00:00:00.000Z'')]
             (car 1 ''X'' ''S1'' ''Ferrari'' Null)))
       (Str ''https://cdn.example/ai-video.mp4'')
       (r2_report (Some \<lparr>success = True, error = None\<rparr>)) \<and>
   issued (deleteAiVideo demo_env_r2 quiet (no_args\<lparr>id' := Some 1\<rparr>)
      (after (deleteAiVideo demo_env_r2 quiet (no_args\<lparr>id' := Some 1\<rparr>) showroom))) =
     [Select [''id'', ''year'', ''make'', ''model'', ''vin'', ''stock_number'', ''ai_video'']
        [Is_null ''deleted_at'', Eq ''id'' (Num 1)]] \<and>
   after (deleteAiVideo demo_env_r2 quiet (no_args\<lparr>id' := Some 1\<rparr>)
      (after (deleteAiVideo demo_env_r2 quiet (no_args\<lparr>id' := Some 1\<rparr>) showroom))) =
     after (deleteAiVideo demo_env_r2 quiet (no_args\<lparr>id' := Some 1\<rparr>) showroom)"
proof -
  let ?a = "no_args\<lparr>id' := Some 1\<rparr>"
  let ?r = "car 1 ''X'' ''S1'' ''Ferrari'' Null"
  have r: "filter (matching (Is_null ''deleted_at'' # identifier_filter ?a)) (vehicles showroom) = [?r]"
    by (simp add: by_id_1 showroom_by_id)
  have t: "truthy (?r ''ai_video'')" "truthy (?r ''stock_number'')"
    by (simp_all add: car_def truthy_def)
  have w: "filter (matching [Eq ''id'' (?r ''id'')]) (concurrent quiet (vehicles showroom)) = [?r]"
    using showroom_id1 by (simp add: quiet_simps car_def)
  have first: "reply (deleteAiVideo demo_env_r2 quiet ?a showroom) =
     AiVideoDeleted
       (project [''id'', ''year'', ''make'', ''model'', ''vin'', ''stock_number'', ''ai_video''] ?r)
       (project [''id'', ''year'', ''make'', ''model'', ''vin'', ''ai_video'']
          (assign [(''ai_video'', Null), (''updated_at'', Str ''2025-01-01T00:00:00.000Z'')] ?r))
       (Str ''https://cdn.example/ai-video.mp4'')
       (r2_report (Some \<lparr>success = True, error = None\<rparr>))"
    using deleteAiVideo_succeeds(1) [OF configured_demo(2) by_id_1(1) quiet_simps(2) r t quiet_simps(3) w]
    by (simp add: r2_configured_demo quiet_simps car_def)
  from C8_second_call_short_circuits [OF first quiet_simps(5) quiet_simps(2)] first
  show ?thesis
    by (auto simp: by_id_1)
qed

section \<open>Claim C9: the object cleanup does not gate the update\<close>

text \<open>
  Claim C9. Once delete-ai-video has found its one visible row, with an \<^verbatim>\<open>ai_video\<close> and a
  \<^verbatim>\<open>stock_number\<close>, the last request it sends is the update that sets \<^verbatim>\<open>ai_video\<close> to NULL
  on the row's id, whether the object storage is configured or not and whether its
  deletion fails or not; the object deletion is sent exactly when the storage is
  configured. When the store accepts the update, the row's \<^verbatim>\<open>ai_video\<close> is NULL afterwards
  and the success text carries the report of the cleanup outcome: deleted, failed (with
  the error) or skipped; the three reports are texts different from each other.
\<close>

theorem C9_cleanup_never_gates_update:
  assumes "configured e" "identifierCount a = 1" "select_error x = None"
    and "filter (matching (Is_null ''deleted_at'' # identifier_filter a)) (vehicles st) = [r]"
    and "truthy (r ''ai_video'')" "truthy (r ''stock_number'')"
  shows "last (issued (deleteAiVideo e x a st)) =
      Update [(''ai_video'', Null), (''updated_at'', Str (now x))] [Eq ''id'' (r ''id'')]
        [''id'', ''year'', ''make'', ''model'', ''vin'', ''ai_video''] \<and>
    ((\<exists>b k. R2_delete b k \<in> set (issued (deleteAiVideo e x a st))) = r2_configured e) \<and>
    (write_error x = None \<and>
     filter (matching [Eq ''id'' (r ''id'')]) (concurrent x (vehicles st)) = [r'] \<longrightarrow>
       (\<exists>v u. reply (deleteAiVideo e x a st) =
          AiVideoDeleted v u (r ''ai_video'')
            (r2_report (if r2_configured e
                        then Some (case r2_error x of None \<Rightarrow> \<lparr>success = True, error = None\<rparr>
                                   | Some m \<Rightarrow> \<lparr>success = False, error = Some m\<rparr>)
                        else None))) \<and>
       (\<forall>q\<in>set (vehicles (after (deleteAiVideo e x a st))).
          q ''id'' = r ''id'' \<longrightarrow> q ''ai_video'' = Null)) \<and>
    r2_report None \<noteq> r2_report (Some \<lparr>success = True, error = None\<rparr>) \<and>
    r2_report None \<noteq> r2_report (Some \<lparr>success = False, error = Some m\<rparr>) \<and>
    r2_report (Some \<lparr>success = True, error = None\<rparr>) \<noteq>
      r2_report (Some \<lparr>success = False, error = Some m\<rparr>)"
proof (intro conjI impI)
  note sent = deleteAiVideo_proceeds [OF assms]
  show "last (issued (deleteAiVideo e x a st)) =
      Update [(''ai_video'', Null), (''updated_at'', Str (now x))] [Eq ''id'' (r ''id'')]
        [''id'', ''year'', ''make'', ''model'', ''vin'', ''ai_video'']"
    unfolding sent by simp
  show "(\<exists>b k. R2_delete b k \<in> set (issued (deleteAiVideo e x a st))) = r2_configured e"
    unfolding sent by auto
next
  assume ok: "write_error x = None \<and>
     filter (matching [Eq ''id'' (r ''id'')]) (concurrent x (vehicles st)) = [r']"
  then have w: "write_error x = None"
    and r': "filter (matching [Eq ''id'' (r ''id'')]) (concurrent x (vehicles st)) = [r']"
    by simp_all
  note fin = deleteAiVideo_succeeds [OF assms w r']
  show "\<exists>v u. reply (deleteAiVideo e x a st) =
          AiVideoDeleted v u (r ''ai_video'')
            (r2_report (if r2_configured e
                        then Some (case r2_error x of None \<Rightarrow> \<lparr>success = True, error = None\<rparr>
                                   | Some m \<Rightarrow> \<lparr>success = False, error = Some m\<rparr>)
                        else None))"
    using fin(1) by blast
  have "r' \<in> set (filter (matching [Eq ''id'' (r ''id'')]) (concurrent x (vehicles st)))"
    using r' by simp
  then have "r ''id'' \<noteq> Null"
    by (auto simp: matching_def)
  then show "\<forall>q\<in>set (vehicles (after (deleteAiVideo e x a st))).
          q ''id'' = r ''id'' \<longrightarrow> q ''ai_video'' = Null"
    unfolding fin(2) by (blast intro: written_video_null)
qed (rule reports_differ)+

theorem C9_witness:
  "last (issued (deleteAiVideo demo_env quiet (no_args\<lparr>id' := Some 1\<rparr>) showroom)) =
     Update [(''ai_video'', Null), (''updated_at'', Str ''2025-01-01T00:00:00.000Z'')]
       [Eq ''id'' (Num 1)] [''id'', ''year'', ''make'', ''model'', ''vin'', ''ai_video''] \<and>
   last (issued (deleteAiVideo demo_env_r2 quiet (no_args\<lparr>id' := Some 1\<rparr>) showroom)) =
     Update [(''ai_video'', Null), (''updated_at'', Str ''2025-01-01T00:00:00.000Z'')]
       [Eq ''id'' (Num 1)] [''id'', ''year'', ''make'', ''model'', ''vin'', ''ai_video''] \<and>
   last (issued (deleteAiVideo demo_env_r2 r2_down (no_args\<lparr>id' := Some 1\<rparr>) showroom)) =
     Update [(''ai_video'', Null), (''updated_at'', Str ''2025-01-01T00:00:00.000Z'')]
       [Eq ''id'' (Num 1)] [''id'', ''year'', ''make'', ''model'', ''vin'', ''ai_video''] \<and>
   (\<exists>v u. reply (deleteAiVideo demo_env quiet (no_args\<lparr>id' := Some 1\<rparr>) showroom) =
      AiVideoDeleted v u (Str ''https://cdn.example/ai-video.mp4'') (r2_report None)) \<and>
   (\<exists>v u. reply (deleteAiVideo demo_env_r2 quiet (no_args\<lparr>id' := Some 1\<rparr>) showroom) =
      AiVideoDeleted v u (Str ''https://cdn.example/ai-video.mp4'')
        (r2_report (Some \<lparr>success = True, error = None\<rparr>))) \<and>
   (\<exists>v u. reply (deleteAiVideo demo_env_r2 r2_down (no_args\<lparr>id' := Some 1\<rparr>) showroom) =
      AiVideoDeleted v u (Str ''https://cdn.example/ai-video.mp4'')
        (r2_report (Some \<lparr>success = False, error = Some ''timeout''\<rparr>)))"
proof -
  let ?a = "no_args\<lparr>id' := Some 1\<rparr>"
  let ?r = "car 1 ''X'' ''S1'' ''Ferrari'' Null"
  have r: "filter (matching (Is_null ''deleted_at'' # identifier_filter ?a)) (vehicles showroom) = [?r]"
    by (simp add: by_id_1 showroom_by_id)
  have t: "truthy (?r ''ai_video'')" "truthy (?r ''stock_number'')"
    by (simp_all add: car_def truthy_def)
  have w: "filter (matching [Eq ''id'' (?r ''id'')]) (concurrent quiet (vehicles showroom)) = [?r]"
    "filter (matching [Eq ''id'' (?r ''id'')]) (concurrent r2_down (vehicles showroom)) = [?r]"
    using showroom_id1 by (simp_all add: quiet_simps r2_down_simps car_def)
  have v: "?r ''id'' = Num 1" "?r ''ai_video'' = Str ''https://cdn.example/ai-video.mp4''"
    by (simp_all add: car_def)
  from C9_cleanup_never_gates_update [OF configured_demo(1) by_id_1(1) quiet_simps(2) r t, of ?r]
    C9_cleanup_never_gates_update [OF configured_demo(2) by_id_1(1) quiet_simps(2) r t, of ?r]
    C9_cleanup_never_gates_update [OF configured_demo(2) by_id_1(1) r2_down_simps(2) r t, of ?r]
    w
  show ?thesis
    by (simp add: quiet_simps r2_down_simps r2_configured_demo v)
qed

section \<open>Claim C10: falsy identifiers\<close>

text \<open>
  Claim C10. Each of the four tools that take an identifier gives the same outcome for a
  call and for the call with every falsy identifier (\<^verbatim>\<open>id = 0\<close>, \<^verbatim>\<open>vin = ""\<close>,
  \<^verbatim>\<open>stockNumber = ""\<close>) left out. In particular add-notes and delete-ai-video called with
  \<^verbatim>\<open>id = 0\<close> alone give the no-identifier error (credentials configured), and the chain of
  update-vehicles passes over a falsy id to the VIN and over a falsy id and VIN to the
  stock number.
\<close>

theorem C10_falsy_identifier_is_absent:
  "addNotes e x (drop_falsy a) st = addNotes e x a st \<and>
   deleteAiVideo e x (drop_falsy a) st = deleteAiVideo e x a st \<and>
   deleteVehicle e x (drop_falsy a) st = deleteVehicle e x a st \<and>
   updateVehicles e x (drop_falsy a) st = updateVehicles e x a st \<and>
   (configured e \<and> id' a = Some 0 \<and> vin a = None \<and> stockNumber a = None \<longrightarrow>
      addNotes e x a st = refuse NoIdentifier st \<and> deleteAiVideo e x a st = refuse NoIdentifier st) \<and>
   (\<not> truthy_num (id' a) \<and> truthy_str (vin a) \<longrightarrow>
      target_filter a = Some [Eq ''vin'' (Str (the (vin a)))]) \<and>
   (\<not> truthy_num (id' a) \<and> \<not> truthy_str (vin a) \<and> truthy_str (stockNumber a) \<longrightarrow>
      target_filter a = Some [Eq ''stock_number'' (Str (the (stockNumber a)))])"
proof (intro conjI impI)
  show "addNotes e x (drop_falsy a) st = addNotes e x a st"
    by (rule addNotes_drop_falsy)
  show "deleteAiVideo e x (drop_falsy a) st = deleteAiVideo e x a st"
    by (rule deleteAiVideo_drop_falsy)
  show "deleteVehicle e x (drop_falsy a) st = deleteVehicle e x a st"
    by (rule deleteVehicle_drop_falsy)
  show "updateVehicles e x (drop_falsy a) st = updateVehicles e x a st"
    by (rule updateVehicles_drop_falsy)
next
  assume h: "configured e \<and> id' a = Some 0 \<and> vin a = None \<and> stockNumber a = None"
  then have n: "identifierCount a = 0"
    by (simp add: identifierCount_def truthy_num_def truthy_str_def)
  from h n show "addNotes e x a st = refuse NoIdentifier st"
    by (simp add: addNotes_def)
  from h n show "deleteAiVideo e x a st = refuse NoIdentifier st"
    by (simp add: deleteAiVideo_def)
next
  assume "\<not> truthy_num (id' a) \<and> truthy_str (vin a)"
  then show "target_filter a = Some [Eq ''vin'' (Str (the (vin a)))]"
    by (simp add: target_filter_def)
next
  assume "\<not> truthy_num (id' a) \<and> \<not> truthy_str (vin a) \<and> truthy_str (stockNumber a)"
  then show "target_filter a = Some [Eq ''stock_number'' (Str (the (stockNumber a)))]"
    by (simp add: target_filter_def)
qed

theorem C10_witness:
  "addNotes demo_env quiet (no_args\<lparr>id' := Some 0, notes' := Some (Some ''sold'')\<rparr>) showroom =
     refuse NoIdentifier showroom \<and>
   deleteAiVideo demo_env quiet (no_args\<lparr>id' := Some 0, notes' := Some (Some ''sold'')\<rparr>) showroom =
     refuse NoIdentifier showroom \<and>
   target_filter (no_args\<lparr>id' := Some 0, vin := Some ''X'', price := Some 5\<rparr>) =
     Some [Eq ''vin'' (Str ''X'')] \<and>
   updateVehicles demo_env quiet (no_args\<lparr>id' := Some 0, vin := Some ''X'', price := Some 5\<rparr>) showroom =
     updateVehicles demo_env quiet
       (drop_falsy (no_args\<lparr>id' := Some 0, vin := Some ''X'', price := Some 5\<rparr>)) showroom \<and>
   drop_falsy (no_args\<lparr>id' := Some 0, vin := Some ''X'', price := Some 5\<rparr>) =
     no_args\<lparr>vin := Some ''X'', price := Some 5\<rparr> \<and>
   issued (updateVehicles demo_env quiet
      (no_args\<lparr>id' := Some 0, vin := Some ''X'', price := Some 5\<rparr>) showroom) =
     [Select [''id'', ''year'', ''make'', ''model'', ''vin'']
        [Is_null ''deleted_at'', Eq ''vin'' (Str ''X'')],
      Update [(''updated_at'', Str ''2025-01-01T00:00:00.000Z''), (''price'', Num 5)]
        [In_list ''id'' [Num 1]] [''id'', ''year'', ''make'', ''model'', ''vin'']]"
proof -
  let ?a = "no_args\<lparr>id' := Some 0, notes' := Some (Some ''sold'')\<rparr>"
  let ?b = "no_args\<lparr>id' := Some 0, vin := Some ''X'', price := Some 5\<rparr>"
  have a: "id' ?a = Some 0" "vin ?a = None" "stockNumber ?a = None"
    by (simp_all add: no_args_def)
  have b: "\<not> truthy_num (id' ?b)" "truthy_str (vin ?b)" "the (vin ?b) = ''X''"
    by (simp_all add: truthy_num_def truthy_str_def)
  have d: "drop_falsy ?b = no_args\<lparr>vin := Some ''X'', price := Some 5\<rparr>"
    by (simp add: drop_falsy_def truthy_num_def truthy_str_def no_args_def)
  from C10_falsy_identifier_is_absent [of demo_env quiet ?a showroom] configured_demo(1) a
  have k1: "addNotes demo_env quiet ?a showroom = refuse NoIdentifier showroom"
    and k2: "deleteAiVideo demo_env quiet ?a showroom = refuse NoIdentifier showroom"
    by blast+
  from C10_falsy_identifier_is_absent [of demo_env quiet ?b showroom] b
  have k3: "target_filter ?b = Some [Eq ''vin'' (Str ''X'')]"
    and k4: "updateVehicles demo_env quiet ?b showroom =
      updateVehicles demo_env quiet (drop_falsy ?b) showroom"
    by simp_all
  have u: "updateData_of t ?b = [(''updated_at'', Str t), (''price'', Num 5)]" for t
    by (simp add: updateData_of_def provided_def no_args_def)
  have i: "[Num 1] = map (\<lambda>r. r ''id'')
             (filter (matching (Is_null ''deleted_at'' # [Eq ''vin'' (Str ''X'')])) (vehicles showroom))"
    by (simp add: showroom_def matching_def car_def)
  have "length (updateData_of (now quiet) ?b) \<noteq> 1" "[Num 1] \<noteq> []"
    by (simp_all add: u)
  from updateVehicles_mutation(1) [OF configured_demo(1) this(1) k3 quiet_simps(2) i this(2)]
  have k5: "issued (updateVehicles demo_env quiet ?b showroom) =
     [Select [''id'', ''year'', ''make'', ''model'', ''vin'']
        [Is_null ''deleted_at'', Eq ''vin'' (Str ''X'')],
      Update [(''updated_at'', Str ''2025-01-01T00:00:00.000Z''), (''price'', Num 5)]
        [In_list ''id'' [Num 1]] [''id'', ''year'', ''make'', ''model'', ''vin'']]"
    by (simp add: u quiet_simps)
  show ?thesis
    by (intro conjI k1 k2 k3 k4 d k5)
qed

end
